theory Spec2Isabelle
  imports Complex_Main "HOL-Library.Log_Nat"
begin

section \<open>The Library B cell: bounds and call arguments\<close>

text \<open>
  \<^verbatim>\<open>pbounds = {'x': (-10, 10), 'y': (-10, 10)}\<close>
  A dict literal of Python ints, kept in insertion order.
\<close>

definition pbounds :: "(string \<times> (int \<times> int)) list" where
  "pbounds = [(''x'', (- 10, 10)), (''y'', (- 10, 10))]"

text \<open>
  The keyword arguments of \<^verbatim>\<open>BayesianOptimization(..., random_state=42)\<close> and
  \<^verbatim>\<open>optimizer.maximize(init_points=2, n_iter=10, acq='ei')\<close>.
\<close>

definition random_state :: int where
  "random_state = 42"

definition init_points :: nat where
  "init_points = 2"

definition n_iter :: nat where
  "n_iter = 10"

definition acq :: string where
  "acq = ''ei''"

section \<open>The Library A cell: objective\<close>

text \<open>
  \<^verbatim>\<open>
  def objective_function(x, y):
      return np.sin(x) + np.cos(y)
  \<close>
  The second notebook variant binds the same name to another function; the model
  keeps the name and adds the library as a suffix.
\<close>

definition objective_function_skopt :: "real \<Rightarrow> real \<Rightarrow> real" where
  "objective_function_skopt x y = sin x + cos y"

section \<open>The recorded run of the Library B cell\<close>

text \<open>
  The standard output stored with the cell: a progress table of twelve rows, each with
  the iteration number, the target and the coordinates as the table prints them, and after
  the table the dict printed by \<^verbatim>\<open>print(optimizer.max)\<close>. A row is printed in
  colour (escape code 95) when the table marks it; the flag keeps that.
\<close>

record table_row =
  row_iter :: nat
  row_target :: real
  row_x :: real
  row_y :: real
  row_marked :: bool

definition printed_rows :: "table_row list" where
  "printed_rows =
    [\<lparr>row_iter = 1, row_target = - 87.55, row_x = - 2.509, row_y = 9.014, row_marked = False\<rparr>,
     \<lparr>row_iter = 2, row_target = - 25.42, row_x = 4.64, row_y = 1.973, row_marked = True\<rparr>,
     \<lparr>row_iter = 3, row_target = - 26.44, row_x = 4.759, row_y = 1.949, row_marked = False\<rparr>,
     \<lparr>row_iter = 4, row_target = - 2.492, row_x = 0.92, row_y = - 1.283, row_marked = True\<rparr>,
     \<lparr>row_iter = 5, row_target = - 49.12, row_x = - 1.537, row_y = - 6.838, row_marked = False\<rparr>,
     \<lparr>row_iter = 6, row_target = - 6.546, row_x = - 2.523, row_y = 0.4244, row_marked = False\<rparr>,
     \<lparr>row_iter = 7, row_target = - 101.0, row_x = - 10.0, row_y = - 1.008, row_marked = False\<rparr>,
     \<lparr>row_iter = 8, row_target = - 200.0, row_x = 10.0, row_y = - 10.0, row_marked = False\<rparr>,
     \<lparr>row_iter = 9, row_target = - 200.0, row_x = 10.0, row_y = 10.0, row_marked = False\<rparr>,
     \<lparr>row_iter = 10, row_target = - 200.0, row_x = - 10.0, row_y = - 10.0, row_marked = False\<rparr>,
     \<lparr>row_iter = 11, row_target = - 200.0, row_x = - 10.0, row_y = 10.0, row_marked = False\<rparr>,
     \<lparr>row_iter = 12, row_target = - 10.71, row_x = - 0.4336, row_y = 3.244, row_marked = False\<rparr>]"

text \<open>
  An evaluation record: the objective value and the point it was measured at, under the
  keys of the printed dict,
  \<^verbatim>\<open>{'target': -2.4923888767972917, 'params': {'x': 0.9199895185372754, 'y': -1.2829684963313963}}\<close>.
\<close>

record 'p evaluation =
  target :: real
  params :: 'p

definition printed_max :: "((string \<times> real) list) evaluation" where
  "printed_max =
    \<lparr>target = - 2.4923888767972917,
     params = [(''x'', 0.9199895185372754), (''y'', - 1.2829684963313963)]\<rparr>"

text \<open>A table row read as an evaluation record, with the printed (rounded) numbers.\<close>

definition row_evaluation :: "table_row \<Rightarrow> ((string \<times> real) list) evaluation" where
  "row_evaluation r = \<lparr>target = row_target r, params = [(''x'', row_x r), (''y'', row_y r)]\<rparr>"

section \<open>The sequential maximizer\<close>

text \<open>
  Modelled from the spec: the sequential maximizer (the class BayesianOptimization of
  \<^verbatim>\<open>bayes_opt\<close>, its method maximize and its attribute max) is imported by the notebook and
  its code is not part of the sources. The spec gives its contract: it takes the objective,
  the bounds, an initial random-exploration count, a subsequent optimization-iteration
  count and a random seed; an evaluation record is produced once per query and accumulated
  into a sequence across iterations; one progress row is emitted per iteration; the result
  is the evaluation record with the maximal objective value among all records of the run.
  How a query point is chosen (the random sampler, the surrogate model and the acquisition
  function) is left open: \<open>propose\<close> maps the records so far and the generator state to the
  next point and the next generator state.
\<close>

definition probe :: "('p \<Rightarrow> real) \<Rightarrow> 'p \<Rightarrow> 'p evaluation" where
  "probe f p = \<lparr>target = f p, params = p\<rparr>"

primrec queries ::
  "('p evaluation list \<Rightarrow> 's \<Rightarrow> 'p \<times> 's) \<Rightarrow> ('p \<Rightarrow> real) \<Rightarrow> nat \<Rightarrow>
     'p evaluation list \<times> 's \<Rightarrow> 'p evaluation list \<times> 's" where
  "queries propose f 0 st = st"
| "queries propose f (Suc n) st =
     (case propose (fst st) (snd st) of
        (p, s') \<Rightarrow> queries propose f n (fst st @ [probe f p], s'))"

definition maximize ::
  "('p evaluation list \<Rightarrow> 's \<Rightarrow> 'p \<times> 's) \<Rightarrow> ('p evaluation list \<Rightarrow> 's \<Rightarrow> 'p \<times> 's) \<Rightarrow>
     ('p \<Rightarrow> real) \<Rightarrow> 's \<Rightarrow> nat \<Rightarrow> nat \<Rightarrow> 'p evaluation list" where
  "maximize sample suggest f seed n_init n_opt =
     fst (queries suggest f n_opt (queries sample f n_init ([], seed)))"

text \<open>The progress table: one row per evaluation record, numbered from 1.\<close>

definition progress_rows :: "'p evaluation list \<Rightarrow> (nat \<times> 'p evaluation) list" where
  "progress_rows es = zip [1 ..< Suc (length es)] es"

text \<open>
  The attribute max: no record before the first query; otherwise the first record whose
  target no other record exceeds.
\<close>

definition better :: "'p evaluation \<Rightarrow> 'p evaluation \<Rightarrow> 'p evaluation" where
  "better b e = (if target b < target e then e else b)"

fun optimizer_max :: "'p evaluation list \<Rightarrow> 'p evaluation option" where
  "optimizer_max [] = None"
| "optimizer_max (e # es) = Some (foldl better e es)"

section \<open>Python values, errors and the kernel state\<close>

text \<open>
  The values the Library A cell handles. \<open>Real_dim\<close> is an instance of
  \<^verbatim>\<open>skopt.space.Real\<close> with its bounds and its optional name; \<open>Callable\<close> and
  \<open>Module\<close> are library objects known by their qualified name; \<open>Function\<close> is a function
  the notebook defines; \<open>Decorator\<close> is the closure \<^verbatim>\<open>use_named_args\<close> returns, holding
  its dimensions; \<open>Wrapper\<close> is the function that closure returns; \<open>Object\<close> is any other
  library object, as its attributes; \<open>Formatted\<close> is the result of \<^verbatim>\<open>str.format\<close>.
\<close>

datatype pyval =
    PyNone
  | PyInt int
  | PyStr string
  | PyTuple "pyval list"
  | PyList "pyval list"
  | Real_dim int int "string option"
  | Callable string
  | Module string
  | Function string
  | Decorator "pyval list"
  | Wrapper pyval "pyval list"
  | Object "(string \<times> pyval) list"
  | Formatted string "pyval list"

datatype pyclass = Dimension

text \<open>
  The exceptions. The ValueError of \<^verbatim>\<open>check_list_types\<close> carries what its message is
  formatted from: the class and the offending elements.
\<close>

datatype value_error =
    Not_instances pyclass "pyval list"
  | Unnamed_dimensions "pyval list"

datatype pyerror =
    ValueError value_error
  | NameError string
  | TypeError string
  | AttributeError string
  | OverflowError string

text \<open>
  The state a cell runs in: the global names of the kernel, the lines printed so far, and
  the calls made so far into library code that the notebook does not show.
\<close>

record kernel =
  names :: "string \<rightharpoonup> pyval"
  stdout :: "pyval list"
  calls :: "(string \<times> pyval list \<times> (string \<times> pyval) list) list"

text \<open>
  Library functions whose code and behaviour the notebook does not show are a parameter:
  the qualified name, the positional and the keyword arguments give an exception or a value.
\<close>

type_synonym library = "string \<Rightarrow> pyval list \<Rightarrow> (string \<times> pyval) list \<Rightarrow> pyerror + pyval"

definition and_then :: "'e + 'a \<Rightarrow> ('a \<Rightarrow> 'e + 'b) \<Rightarrow> 'e + 'b" where
  "and_then m f = (case m of Inl e \<Rightarrow> Inl e | Inr v \<Rightarrow> f v)"

definition lookup :: "string \<Rightarrow> kernel \<Rightarrow> pyerror + pyval" where
  "lookup n k = (case names k n of None \<Rightarrow> Inl (NameError n) | Some v \<Rightarrow> Inr v)"

definition assign :: "string \<Rightarrow> pyval \<Rightarrow> kernel \<Rightarrow> kernel" where
  "assign n v k = k\<lparr>names := (names k)(n \<mapsto> v)\<rparr>"

definition import_from :: "string \<Rightarrow> string \<Rightarrow> kernel \<Rightarrow> pyerror + kernel" where
  "import_from m n k = Inr (assign n (Callable (m @ ''.'' @ n)) k)"

definition import_as :: "string \<Rightarrow> string \<Rightarrow> kernel \<Rightarrow> pyerror + kernel" where
  "import_as m a k = Inr (assign a (Module m) k)"

fun getattr :: "pyval \<Rightarrow> string \<Rightarrow> pyerror + pyval" where
  "getattr (Module m) a = Inr (Callable (m @ ''.'' @ a))"
| "getattr (Object fs) a =
     (case map_of fs a of None \<Rightarrow> Inl (AttributeError a) | Some v \<Rightarrow> Inr v)"
| "getattr v a = Inl (AttributeError a)"

section \<open>The library code shown in the captured traceback\<close>

text \<open>
  \<^verbatim>\<open>
  def check_list_types(x, types):
      ...
          msg = "All elements in list must be instances of {}, but found: {}"
          msg = msg.format(types, err)
          raise ValueError(msg)
  \<close>
  Modelled from the spec: the lines of \<^verbatim>\<open>check_list_types\<close> before the message are
  not in the traceback. By the spec the elements must be instances of the library's
  interval type, and the captured message lists the elements that are not.
\<close>

fun isinstance :: "pyval \<Rightarrow> pyclass \<Rightarrow> bool" where
  "isinstance (Real_dim low high n) Dimension = True"
| "isinstance v Dimension = False"

definition check_list_types :: "pyval list \<Rightarrow> pyclass \<Rightarrow> pyerror + unit" where
  "check_list_types x types =
     (let err = filter (\<lambda>a. \<not> isinstance a types) x
      in if err \<noteq> [] then Inl (ValueError (Not_instances types err)) else Inr ())"

text \<open>
  \<^verbatim>\<open>
  def decorator(func):
      # Ensure all dimensions are correctly typed.
      check_list_types(dimensions, Dimension)

      # Ensure all dimensions have names.
      ...
  \<close>
  Modelled from the spec: of the second check the traceback shows the comment only; a
  dimension has a name optionally, and the check raises for the dimensions without one.
\<close>

fun has_name :: "pyval \<Rightarrow> bool" where
  "has_name (Real_dim low high n) = (n \<noteq> None)"
| "has_name v = False"

definition check_dimension_names :: "pyval list \<Rightarrow> pyerror + unit" where
  "check_dimension_names dimensions =
     (let err = filter (\<lambda>d. \<not> has_name d) dimensions
      in if err \<noteq> [] then Inl (ValueError (Unnamed_dimensions err)) else Inr ())"

definition decorator :: "pyval list \<Rightarrow> pyval \<Rightarrow> pyerror + pyval" where
  "decorator dimensions func =
     and_then (check_list_types dimensions Dimension) (\<lambda>_.
     and_then (check_dimension_names dimensions) (\<lambda>_.
       Inr (Wrapper func dimensions)))"

section \<open>Calls\<close>

text \<open>
  A call into a library the notebook does not show is recorded in the kernel state and
  answered by the parameter.
\<close>

definition external ::
  "library \<Rightarrow> string \<Rightarrow> pyval list \<Rightarrow> (string \<times> pyval) list \<Rightarrow> kernel \<Rightarrow> pyerror + (pyval \<times> kernel)" where
  "external lib n args kw k =
     and_then (lib n args kw) (\<lambda>v. Inr (v, k\<lparr>calls := calls k @ [(n, args, kw)]\<rparr>))"

text \<open>
  \<^verbatim>\<open>Real(low, high)\<close> and \<^verbatim>\<open>Real(low, high, name=...)\<close> on integers with
  \<open>low < high\<close> build the interval object, as the captured message prints it
  (\<^verbatim>\<open>Real(low=-10, high=10, prior='uniform', transform='identity')\<close>); what the
  constructor does with other arguments is not shown and is left to the parameter.
\<close>

definition Real_init :: "pyval list \<Rightarrow> (string \<times> pyval) list \<Rightarrow> pyval option" where
  "Real_init args kw =
     (case args of
        [PyInt low, PyInt high] \<Rightarrow>
          (if low < high then
             (case kw of
                [] \<Rightarrow> Some (Real_dim low high None)
              | [(key, PyStr n)] \<Rightarrow> (if key = ''name'' then Some (Real_dim low high (Some n)) else None)
              | _ \<Rightarrow> None)
           else None)
      | _ \<Rightarrow> None)"

definition call ::
  "library \<Rightarrow> pyval \<Rightarrow> pyval list \<Rightarrow> (string \<times> pyval) list \<Rightarrow> kernel \<Rightarrow> pyerror + (pyval \<times> kernel)" where
  "call lib f args kw k =
     (case f of
        Callable n \<Rightarrow>
          (if n = ''skopt.space.Real'' then
             (case Real_init args kw of
                Some v \<Rightarrow> Inr (v, k)
              | None \<Rightarrow> external lib n args kw k)
           else if n = ''skopt.utils.use_named_args'' then
             (case (args, kw) of
                ([PyList dimensions], []) \<Rightarrow> Inr (Decorator dimensions, k)
              | _ \<Rightarrow> external lib n args kw k)
           else external lib n args kw k)
      | Decorator dimensions \<Rightarrow>
          (case (args, kw) of
             ([func], []) \<Rightarrow> and_then (decorator dimensions func) (\<lambda>w. Inr (w, k))
           | _ \<Rightarrow> Inl (TypeError ''decorator() takes 1 positional argument''))
      | _ \<Rightarrow> Inl (TypeError ''object is not callable''))"

section \<open>The statements of the Library A cell\<close>

text \<open>
  Each statement maps the kernel state to an exception or to the next state. The imports
  bind the imported names (the recorded run got past them, so the packages are installed).
\<close>

type_synonym statement = "kernel \<Rightarrow> pyerror + kernel"

text \<open>
  \<^verbatim>\<open>Real(-10, 10)\<close> and \<^verbatim>\<open>Real(-10, 10, name=n)\<close>: the callee is looked up, then called.
\<close>

definition Real_call ::
  "library \<Rightarrow> (string \<times> pyval) list \<Rightarrow> kernel \<Rightarrow> pyerror + (pyval \<times> kernel)" where
  "Real_call lib kw k =
     and_then (lookup ''Real'' k) (\<lambda>f. call lib f [PyInt (- 10), PyInt 10] kw k)"

text \<open>The list display \<^verbatim>\<open>[('x', Real(-10, 10)), ('y', Real(-10, 10))]\<close>.\<close>

definition tuple_dimensions :: "library \<Rightarrow> kernel \<Rightarrow> pyerror + (pyval \<times> kernel)" where
  "tuple_dimensions lib k =
     and_then (Real_call lib [] k) (\<lambda>(dx, k1).
     and_then (Real_call lib [] k1) (\<lambda>(dy, k2).
       Inr (PyList [PyTuple [PyStr ''x'', dx], PyTuple [PyStr ''y'', dy]], k2)))"

text \<open>
  The list display of the line the cell comments out,
  \<^verbatim>\<open>[Real(-10, 10, name='x'), Real(-10, 10, name='y')]\<close>.
\<close>

definition typed_dimensions :: "library \<Rightarrow> kernel \<Rightarrow> pyerror + (pyval \<times> kernel)" where
  "typed_dimensions lib k =
     and_then (Real_call lib [(''name'', PyStr ''x'')] k) (\<lambda>(dx, k1).
     and_then (Real_call lib [(''name'', PyStr ''y'')] k1) (\<lambda>(dy, k2).
       Inr (PyList [dx, dy], k2)))"

text \<open>
  \<^verbatim>\<open>
  @use_named_args(<dimensions>)
  def objective_function(x, y):
      return np.sin(x) + np.cos(y)
  \<close>
  The decorator expression is evaluated (callee first, then its argument), the function
  object is created, the decorator is applied to it, and the result is bound to the name.
  The cell passes \<open>tuple_dimensions\<close>.
\<close>

definition def_objective_function ::
  "(library \<Rightarrow> kernel \<Rightarrow> pyerror + (pyval \<times> kernel)) \<Rightarrow> library \<Rightarrow> statement" where
  "def_objective_function dimensions lib k =
     and_then (lookup ''use_named_args'' k) (\<lambda>u.
     and_then (dimensions lib k) (\<lambda>(ds, k1).
     and_then (call lib u [ds] [] k1) (\<lambda>(dec, k2).
     and_then (call lib dec [Function ''objective_function''] [] k2) (\<lambda>(w, k3).
       Inr (assign ''objective_function'' w k3)))))"

text \<open>\<^verbatim>\<open>dimensions = [('x', Real(-10, 10)), ('y', Real(-10, 10))]\<close>\<close>

definition assign_dimensions :: "library \<Rightarrow> statement" where
  "assign_dimensions lib k =
     and_then (tuple_dimensions lib k) (\<lambda>(ds, k1). Inr (assign ''dimensions'' ds k1))"

text \<open>
  \<^verbatim>\<open>space = Space([Real(*dim) for dim in dimensions])\<close>
  The callee \<^verbatim>\<open>Space\<close> is looked up first; then the comprehension runs over the value
  of \<^verbatim>\<open>dimensions\<close>, unpacking each element into a call of \<^verbatim>\<open>Real\<close>.
\<close>

fun unpack :: "pyval \<Rightarrow> pyerror + pyval list" where
  "unpack (PyTuple vs) = Inr vs"
| "unpack (PyList vs) = Inr vs"
| "unpack v = Inl (TypeError ''object is not iterable'')"

fun Real_of_each :: "library \<Rightarrow> pyval list \<Rightarrow> kernel \<Rightarrow> pyerror + (pyval list \<times> kernel)" where
  "Real_of_each lib [] k = Inr ([], k)"
| "Real_of_each lib (d # ds) k =
     and_then (lookup ''Real'' k) (\<lambda>f.
     and_then (unpack d) (\<lambda>args.
     and_then (call lib f args [] k) (\<lambda>(v, k1).
     and_then (Real_of_each lib ds k1) (\<lambda>(vs, k2). Inr (v # vs, k2)))))"

definition assign_space :: "library \<Rightarrow> statement" where
  "assign_space lib k =
     and_then (lookup ''Space'' k) (\<lambda>sp.
     and_then (lookup ''dimensions'' k) (\<lambda>ds.
     and_then (unpack ds) (\<lambda>elems.
     and_then (Real_of_each lib elems k) (\<lambda>(vs, k1).
     and_then (call lib sp [PyList vs] [] k1) (\<lambda>(s, k2).
       Inr (assign ''space'' s k2))))))"

text \<open>
  \<^verbatim>\<open>result = gp_minimize(objective_function, space, n_calls=20, random_state=42)\<close>
\<close>

definition assign_result :: "library \<Rightarrow> statement" where
  "assign_result lib k =
     and_then (lookup ''gp_minimize'' k) (\<lambda>g.
     and_then (lookup ''objective_function'' k) (\<lambda>f.
     and_then (lookup ''space'' k) (\<lambda>s.
     and_then (call lib g [f, s] [(''n_calls'', PyInt 20), (''random_state'', PyInt 42)] k) (\<lambda>(r, k1).
       Inr (assign ''result'' r k1)))))"

text \<open>
  \<^verbatim>\<open>print(fmt.format(result.<attr>))\<close> and \<^verbatim>\<open>plt.<fn>(...)\<close>, the latter with its
  argument already evaluated.
\<close>

definition print_result :: "string \<Rightarrow> string \<Rightarrow> statement" where
  "print_result fmt attr k =
     and_then (lookup ''result'' k) (\<lambda>r.
     and_then (getattr r attr) (\<lambda>v.
       Inr (k\<lparr>stdout := stdout k @ [Formatted fmt [v]]\<rparr>)))"

definition plt_call :: "library \<Rightarrow> string \<Rightarrow> pyval list \<Rightarrow> statement" where
  "plt_call lib fn args k =
     and_then (lookup ''plt'' k) (\<lambda>m.
     and_then (getattr m fn) (\<lambda>f.
     and_then (call lib f args [] k) (\<lambda>(v, k1). Inr k1)))"

definition plot_func_vals :: "library \<Rightarrow> statement" where
  "plot_func_vals lib k =
     and_then (lookup ''plt'' k) (\<lambda>m.
     and_then (getattr m ''plot'') (\<lambda>f.
     and_then (lookup ''result'' k) (\<lambda>r.
     and_then (getattr r ''func_vals'') (\<lambda>vs.
     and_then (call lib f [vs] [] k) (\<lambda>(v, k1). Inr k1)))))"

text \<open>
  The cell, statement by statement, with the dimensions expression of the decorator as a
  parameter; \<open>skopt_cell\<close> is the cell as written.
\<close>

definition skopt_cell_with ::
  "(library \<Rightarrow> kernel \<Rightarrow> pyerror + (pyval \<times> kernel)) \<Rightarrow> library \<Rightarrow> statement list" where
  "skopt_cell_with dimensions lib =
    [import_from ''skopt'' ''gp_minimize'',
     import_from ''skopt.space'' ''Real'',
     import_from ''skopt.utils'' ''use_named_args'',
     import_as ''numpy'' ''np'',
     import_as ''matplotlib.pyplot'' ''plt'',
     def_objective_function dimensions lib,
     assign_dimensions lib,
     assign_space lib,
     assign_result lib,
     print_result ''Optimal input values: {}'' ''x'',
     print_result ''Optimal objective function value: {:.3f}'' ''fun'',
     plot_func_vals lib,
     plt_call lib ''xlabel'' [PyStr ''Iteration''],
     plt_call lib ''ylabel'' [PyStr ''Objective function value''],
     plt_call lib ''show'' []]"

definition skopt_cell :: "library \<Rightarrow> statement list" where
  "skopt_cell lib = skopt_cell_with tuple_dimensions lib"

text \<open>
  Running a cell: the statements run in order; the cell has no \<^verbatim>\<open>try\<close>, so the first
  exception ends the run. The outcome keeps the exception, the index of the statement
  that raised it and the state that statement started from.
\<close>

datatype outcome = Finished kernel | Raised pyerror nat kernel

fun run_from :: "nat \<Rightarrow> statement list \<Rightarrow> kernel \<Rightarrow> outcome" where
  "run_from i [] k = Finished k"
| "run_from i (s # ss) k =
     (case s k of Inl e \<Rightarrow> Raised e i k | Inr k' \<Rightarrow> run_from (Suc i) ss k')"

definition run_cell :: "statement list \<Rightarrow> kernel \<Rightarrow> outcome" where
  "run_cell ss k = run_from 0 ss k"

section \<open>Reading the search space\<close>

text \<open>A coordinate lies within the bounds the mapping gives for its name.\<close>

definition in_bounds :: "(string \<times> (int \<times> int)) list \<Rightarrow> string \<Rightarrow> real \<Rightarrow> bool" where
  "in_bounds bounds n v =
     (case map_of bounds n of
        None \<Rightarrow> False
      | Some (low, high) \<Rightarrow> real_of_int low \<le> v \<and> v \<le> real_of_int high)"

text \<open>The intervals held by a value: those of the interval objects in it, in order.\<close>

fun intervals :: "pyval \<Rightarrow> (int \<times> int) list" where
  "intervals (Real_dim low high n) = [(low, high)]"
| "intervals (PyTuple vs) = concat (map intervals vs)"
| "intervals (PyList vs) = concat (map intervals vs)"
| "intervals v = []"

text \<open>The kernel state once the five imports of the Library A cell have run.\<close>

definition after_imports :: "kernel \<Rightarrow> kernel" where
  "after_imports k = k\<lparr>names := (names k)
      (''gp_minimize'' \<mapsto> Callable ''skopt.gp_minimize'',
       ''Real'' \<mapsto> Callable ''skopt.space.Real'',
       ''use_named_args'' \<mapsto> Callable ''skopt.utils.use_named_args'',
       ''np'' \<mapsto> Module ''numpy'',
       ''plt'' \<mapsto> Module ''matplotlib.pyplot'')\<rparr>"

text \<open>A fresh kernel, and a library that answers every call with \<^verbatim>\<open>None\<close>.\<close>

definition fresh_kernel :: kernel where
  "fresh_kernel = \<lparr>names = Map.empty, stdout = [], calls = []\<rparr>"

definition silent_library :: library where
  "silent_library n args kw = Inr PyNone"

section \<open>Python floats\<close>

text \<open>
  A Python float is an IEEE 754 binary64 value: a finite value, the negative zero, an
  infinity or a NaN. \<open>Finite r\<close> is the finite double of real value \<open>r\<close>, with
  \<open>Finite 0\<close> the positive zero; the reals that are doubles are the values
  \<open>round_to_double\<close> returns.
\<close>

datatype pyfloat = Finite real | NegZero | PosInf | NegInf | NaN

text \<open>
  The real value of a finite float (both zeros have the value 0); an infinity or a NaN
  has none, and the statements below read the value of finite floats only.
\<close>

fun valof :: "pyfloat \<Rightarrow> real" where
  "valof (Finite r) = r"
| "valof v = 0"

fun is_finite :: "pyfloat \<Rightarrow> bool" where
  "is_finite (Finite r) = True"
| "is_finite NegZero = True"
| "is_finite v = False"

text \<open>The smallest positive double; every finite double is a multiple of it.\<close>

definition tiny :: real where
  "tiny = 1 / 2 ^ 1074"

text \<open>The nearest integer, a tie going to the even one.\<close>

definition round_even :: "real \<Rightarrow> int" where
  "round_even q =
     (let f = \<lfloor>q\<rfloor>; d = q - of_int f
      in if d < 1 / 2 then f else if 1 / 2 < d then f + 1 else if even f then f else f + 1)"

text \<open>
  The distance between neighbouring doubles around a magnitude \<open>a\<close>: with \<open>k\<close> the
  number of bits of the integer part of \<open>a / tiny\<close>, it is \<open>tiny\<close> while \<open>k\<close> is at
  most 53 (the subnormal range and the first binade) and doubles with each further bit.
\<close>

definition spacing :: "real \<Rightarrow> real" where
  "spacing a = 2 ^ nat (max (bitlen \<lfloor>a / tiny\<rfloor> - 53) 0) * tiny"

text \<open>
  Rounding to nearest, ties to even: the magnitude is rounded on the grid of its binade;
  a rounded magnitude of \<open>2 ^ 1024\<close> or more overflows to the infinity of the sign, and a
  negative value that rounds to zero gives the negative zero. A float literal denotes the
  rounded value of its decimal, and an arithmetic operation returns the rounded value of
  its exact result.
\<close>

definition round_magnitude :: "real \<Rightarrow> real" where
  "round_magnitude a = of_int (round_even (a / spacing a)) * spacing a"

definition round_to_double :: "real \<Rightarrow> pyfloat" where
  "round_to_double v =
     (let m = round_magnitude \<bar>v\<bar>
      in if 2 ^ 1024 \<le> m then (if 0 < v then PosInf else NegInf)
         else if 0 \<le> v then Finite m
         else if m = 0 then NegZero else Finite (- m))"

text \<open>The comparisons \<^verbatim>\<open>x <= y\<close> and \<^verbatim>\<open>x == y\<close>: false on a NaN, the zeros equal.\<close>

fun float_le :: "pyfloat \<Rightarrow> pyfloat \<Rightarrow> bool" where
  "float_le NaN y = False"
| "float_le x NaN = False"
| "float_le NegInf y = True"
| "float_le x PosInf = True"
| "float_le PosInf y = False"
| "float_le x NegInf = False"
| "float_le x y = (valof x \<le> valof y)"

fun float_eq :: "pyfloat \<Rightarrow> pyfloat \<Rightarrow> bool" where
  "float_eq NaN y = False"
| "float_eq x NaN = False"
| "float_eq PosInf y = (y = PosInf)"
| "float_eq x PosInf = False"
| "float_eq NegInf y = (y = NegInf)"
| "float_eq x NegInf = False"
| "float_eq x y = (valof x = valof y)"

text \<open>The unary minus \<^verbatim>\<open>-x\<close> flips the sign, also of a zero and of an infinity.\<close>

fun float_neg :: "pyfloat \<Rightarrow> pyfloat" where
  "float_neg (Finite r) = (if r = 0 then NegZero else Finite (- r))"
| "float_neg NegZero = Finite 0"
| "float_neg PosInf = NegInf"
| "float_neg NegInf = PosInf"
| "float_neg NaN = NaN"

text \<open>
  The sum \<^verbatim>\<open>x + y\<close> never raises: a NaN operand or infinities of opposite sign give NaN,
  an infinity otherwise absorbs, two negative zeros give the negative zero, an exact sum
  of zero gives the positive zero, and any other exact sum is rounded (to an infinity
  when it overflows).
\<close>

definition float_add :: "pyfloat \<Rightarrow> pyfloat \<Rightarrow> pyfloat" where
  "float_add x y =
     (if x = NaN \<or> y = NaN then NaN
      else if x = PosInf then (if y = NegInf then NaN else PosInf)
      else if x = NegInf then (if y = PosInf then NaN else NegInf)
      else if y = PosInf then PosInf
      else if y = NegInf then NegInf
      else if x = NegZero \<and> y = NegZero then NegZero
      else let s = valof x + valof y in if s = 0 then Finite 0 else round_to_double s)"

text \<open>
  The power \<^verbatim>\<open>x ** 2\<close> of a float: a NaN gives NaN, an infinity the positive infinity,
  a zero the positive zero and a base of magnitude 1 gives 1, all without calling the
  C library; any other base goes, as its magnitude, to the C library's \<^verbatim>\<open>pow\<close> with
  the exponent 2.0, and an infinite result raises OverflowError. The C library is not
  part of the sources: what its \<^verbatim>\<open>pow\<close> returns at exponent 2.0 is the parameter
  \<open>pow2\<close>.
\<close>

definition float_pow2 :: "(real \<Rightarrow> pyfloat) \<Rightarrow> pyfloat \<Rightarrow> pyerror + pyfloat" where
  "float_pow2 pow2 v =
     (case v of
        NaN \<Rightarrow> Inr NaN
      | PosInf \<Rightarrow> Inr PosInf
      | NegInf \<Rightarrow> Inr PosInf
      | NegZero \<Rightarrow> Inr (Finite 0)
      | Finite iv \<Rightarrow>
          if iv = 0 then Inr (Finite 0)
          else if \<bar>iv\<bar> = 1 then Inr (Finite 1)
          else (case pow2 \<bar>iv\<bar> of
                  PosInf \<Rightarrow> Inl (OverflowError ''Numerical result out of range'')
                | NegInf \<Rightarrow> Inl (OverflowError ''Numerical result out of range'')
                | ix \<Rightarrow> Inr ix))"

section \<open>The objective of the Library B cell\<close>

text \<open>
  \<^verbatim>\<open>
  def objective_function(x, y):
      return -(x**2 + y**2)
  \<close>
  The arguments are floats, the coordinates of a query point. The operands are evaluated
  from left to right, and an exception of a power ends the call.
\<close>

definition objective_function ::
  "(real \<Rightarrow> pyfloat) \<Rightarrow> pyfloat \<Rightarrow> pyfloat \<Rightarrow> pyerror + pyfloat" where
  "objective_function pow2 x y =
     and_then (float_pow2 pow2 x) (\<lambda>x2.
     and_then (float_pow2 pow2 y) (\<lambda>y2.
       Inr (float_neg (float_add x2 y2))))"

text \<open>
  The objective in the spec's words, \<^verbatim>\<open>f(x, y) = -(x^2 + y^2)\<close> over the real numbers,
  to compare the code with.
\<close>

definition spec_objective :: "real \<Rightarrow> real \<Rightarrow> real" where
  "spec_objective x y = - (x ^ 2 + y ^ 2)"

text \<open>A \<^verbatim>\<open>pow\<close> that returns the correctly rounded square, as the product x * x is.\<close>

definition rounded_square :: "real \<Rightarrow> pyfloat" where
  "rounded_square a = round_to_double (a ^ 2)"

text \<open>
  The accuracy asked of the C library's \<^verbatim>\<open>pow\<close> at exponent 2.0: for a positive base
  whose square is at most \<open>2 ^ 1023\<close> the result is a finite, non-negative double within
  one unit in the last place of the exact square.
\<close>

definition pow_accurate :: "(real \<Rightarrow> pyfloat) \<Rightarrow> bool" where
  "pow_accurate pow2 =
     (\<forall>a. 0 < a \<and> a ^ 2 \<le> 2 ^ 1023 \<longrightarrow>
        (\<exists>p. pow2 a = Finite p \<and> 0 \<le> p \<and> \<bar>p - a ^ 2\<bar> \<le> a ^ 2 / 2 ^ 52 + tiny))"

text \<open>A float coordinate lies within the bounds: it is finite and its value does.\<close>

definition float_in_bounds :: "(string \<times> (int \<times> int)) list \<Rightarrow> string \<Rightarrow> pyfloat \<Rightarrow> bool" where
  "float_in_bounds bounds n x = (is_finite x \<and> in_bounds bounds n (valof x))"

section \<open>Rounding to a double\<close>

lemma tiny_pos: "0 < tiny"
  by (simp add: tiny_def)

lemma tiny_powi: "tiny = 2 powi (- 1074)"
  by (simp add: tiny_def power_int_minus_divide)

lemma round_even_error: "\<bar>of_int (round_even q) - q\<bar> \<le> 1 / 2"
proof -
  have "of_int \<lfloor>q\<rfloor> \<le> q" "q < of_int \<lfloor>q\<rfloor> + 1" by linarith+
  then show ?thesis by (auto simp: round_even_def Let_def)
qed

lemma round_even_ge: "of_int k \<le> q \<Longrightarrow> k \<le> round_even q"
proof -
  assume "of_int k \<le> q"
  then have "k \<le> \<lfloor>q\<rfloor>" by (simp add: le_floor_iff)
  then show ?thesis by (auto simp: round_even_def Let_def)
qed

lemma round_even_nonneg: "0 \<le> q \<Longrightarrow> 0 \<le> round_even q"
  using round_even_ge [of 0 q] by simp

lemma bitlen_eqI:
  assumes "2 ^ nat (b - 1) \<le> n" "n < 2 ^ nat b" "0 < b"
  shows "bitlen n = b"
proof -
  have "bitlen n \<le> b" using assms by (simp add: bitlen_le_iff_power)
  moreover have "b \<le> bitlen n" using assms by (simp add: bitlen_ge_iff_power nat_diff_distrib)
  ultimately show ?thesis by simp
qed

lemma spacing_pos: "0 < spacing a"
  by (simp add: spacing_def tiny_pos)

lemma spacing_le:
  assumes "0 \<le> a"
  shows "spacing a \<le> a / 2 ^ 52 + tiny"
proof (cases "bitlen \<lfloor>a / tiny\<rfloor> \<le> 53")
  case True
  then have "spacing a = tiny" by (simp add: spacing_def max_def)
  with assms show ?thesis by simp
next
  case False
  let ?n = "\<lfloor>a / tiny\<rfloor>"
  let ?b = "bitlen ?n"
  from False have b: "53 < ?b" by simp
  then have n: "0 < ?n" using bitlen_eq_zero_iff [of ?n] by (cases "0 < ?n") auto
  from bitlen_bounds [OF n] have "2 ^ nat (?b - 1) \<le> ?n" by simp
  then have "real_of_int (2 ^ nat (?b - 1)) \<le> real_of_int ?n"
    by (simp only: of_int_le_iff)
  then have "(2::real) ^ nat (?b - 1) \<le> of_int ?n"
    by simp
  also have "\<dots> \<le> a / tiny" by simp
  finally have l: "2 ^ nat (?b - 1) * tiny \<le> a"
    using tiny_pos by (simp add: pos_le_divide_eq)
  have e: "nat (?b - 1) = nat (?b - 53) + 52" using b by simp
  have "spacing a = 2 ^ nat (?b - 53) * tiny" using b by (simp add: spacing_def max_def)
  also have "\<dots> = (2 ^ nat (?b - 1) * tiny) / 2 ^ 52"
    unfolding e power_add by simp
  also have "\<dots> \<le> a / 2 ^ 52" using l by (simp add: divide_right_mono)
  finally show ?thesis using tiny_pos by simp
qed

lemma round_magnitude_nonneg: "0 \<le> a \<Longrightarrow> 0 \<le> round_magnitude a"
  unfolding round_magnitude_def
  by (intro mult_nonneg_nonneg) (simp_all add: round_even_nonneg spacing_pos less_imp_le)

lemma round_magnitude_error: "\<bar>round_magnitude a - a\<bar> \<le> spacing a / 2"
proof -
  let ?s = "spacing a"
  have s: "0 < ?s" by (rule spacing_pos)
  have "round_magnitude a - a = (of_int (round_even (a / ?s)) - a / ?s) * ?s"
    using s by (simp add: round_magnitude_def algebra_simps)
  then have "\<bar>round_magnitude a - a\<bar> = \<bar>of_int (round_even (a / ?s)) - a / ?s\<bar> * ?s"
    using s by (simp add: abs_mult)
  also have "\<dots> \<le> 1 / 2 * ?s"
    by (rule mult_right_mono [OF round_even_error]) (simp add: s less_imp_le)
  finally show ?thesis by simp
qed

lemma round_magnitude_zero:
  assumes "0 \<le> a" "round_magnitude a = 0"
  shows "a \<le> tiny"
proof -
  from round_magnitude_error [of a] assms have "a \<le> spacing a / 2" by simp
  also have "\<dots> \<le> (a / 2 ^ 52 + tiny) / 2" using spacing_le [OF assms(1)] by simp
  finally have "a * (1 - 1 / 2 ^ 53) \<le> tiny / 2" by (simp add: algebra_simps)
  moreover have "a * (1 / 2) \<le> a * (1 - 1 / 2 ^ 53)"
    by (rule mult_left_mono) (simp_all add: assms)
  ultimately show ?thesis by simp
qed


lemma bitlen_floor_scaled:
  assumes "- 1074 \<le> e" "2 powi e \<le> a" "a < 2 powi (e + 1)"
  shows "bitlen \<lfloor>a / tiny\<rfloor> = e + 1075"
proof (rule bitlen_eqI)
  have t: "a / tiny = a * 2 powi 1074"
    by (simp add: tiny_def)
  have "real_of_int (2 ^ nat (e + 1074)) = 2 powi e * 2 powi 1074"
    using assms(1) by (simp add: power_int_add power_int_nonneg_exp flip: power_int_nonneg_exp)
  also have "\<dots> \<le> a / tiny"
    unfolding t by (rule mult_right_mono [OF assms(2)]) simp
  finally have "2 ^ nat (e + 1074) \<le> \<lfloor>a / tiny\<rfloor>"
    by (simp only: le_floor_iff)
  then show "2 ^ nat (e + 1075 - 1) \<le> \<lfloor>a / tiny\<rfloor>"
    by (simp add: algebra_simps)
  have "a / tiny < 2 powi (e + 1) * 2 powi 1074"
    unfolding t by (rule mult_strict_right_mono [OF assms(3)]) simp
  also have "\<dots> = real_of_int (2 ^ nat (e + 1075))"
    using assms(1) by (simp add: power_int_add power_int_nonneg_exp algebra_simps flip: power_int_nonneg_exp)
  finally show "\<lfloor>a / tiny\<rfloor> < 2 ^ nat (e + 1075)"
    by (simp only: floor_less_iff)
  show "0 < e + 1075" using assms(1) by simp
qed

lemma spacing_normal:
  assumes "- 1022 \<le> e" "2 powi e \<le> a" "a < 2 powi (e + 1)"
  shows "spacing a = 2 powi (e - 52)"
proof -
  have b: "bitlen \<lfloor>a / tiny\<rfloor> = e + 1075"
    using assms by (intro bitlen_floor_scaled) simp_all
  have "max (e + 1075 - 53) 0 = e + 1022"
    using assms(1) by simp
  then have "spacing a = 2 ^ nat (e + 1022) * tiny"
    by (simp only: spacing_def b)
  also have "\<dots> = 2 powi (e + 1022) * 2 powi (- 1074)"
    using assms(1) by (simp add: tiny_powi power_int_nonneg_exp)
  also have "\<dots> = 2 powi (e + 1022 + (- 1074))"
    by (rule power_int_add [symmetric]) simp
  also have "e + 1022 + (- 1074) = e - 52"
    by simp
  finally show ?thesis .
qed

lemma spacing_subnormal:
  assumes "0 \<le> a" "a < 2 powi (- 1021)"
  shows "spacing a = tiny"
proof -
  have "a / tiny < 2 powi (- 1021) * 2 powi 1074"
    unfolding tiny_def using assms(2) by (simp add: power_int_minus_divide)
  also have "\<dots> = real_of_int (2 ^ 53)"
    by (simp flip: power_int_add)
  finally have "\<lfloor>a / tiny\<rfloor> < 2 ^ 53"
    by (simp only: floor_less_iff)
  then have "bitlen \<lfloor>a / tiny\<rfloor> \<le> 53"
    by (simp add: bitlen_le_iff_power)
  then show ?thesis by (simp add: spacing_def max_def)
qed

lemma round_magnitude_normal:
  assumes "- 1022 \<le> e" "2 powi e \<le> a" "a < 2 powi (e + 1)"
  shows "round_magnitude a = of_int (round_even (a / 2 powi (e - 52))) * 2 powi (e - 52)"
  by (simp add: round_magnitude_def spacing_normal [OF assms])

lemma round_magnitude_subnormal:
  assumes "0 \<le> a" "a < 2 powi (- 1021)"
  shows "round_magnitude a = of_int (round_even (a / tiny)) * tiny"
  by (simp add: round_magnitude_def spacing_subnormal [OF assms])


lemma tiny_le_one: "tiny \<le> 1"
  by (simp add: tiny_def)

lemma round_magnitude_bound:
  assumes "0 \<le> a"
  shows "\<bar>round_magnitude a - a\<bar> \<le> a / 2 ^ 53 + tiny / 2"
proof -
  have "\<bar>round_magnitude a - a\<bar> \<le> spacing a / 2" by (rule round_magnitude_error)
  also have "\<dots> \<le> (a / 2 ^ 52 + tiny) / 2" using spacing_le [OF assms] by simp
  also have "\<dots> = a / 2 ^ 53 + tiny / 2" by simp
  finally show ?thesis .
qed

lemma round_magnitude_0: "round_magnitude 0 = 0"
  by (simp add: round_magnitude_def round_even_def)

lemma round_to_double_finite:
  assumes "\<bar>v\<bar> \<le> 3 * 2 ^ 1022"
  shows "is_finite (round_to_double v)"
    and "valof (round_to_double v) = sgn v * round_magnitude \<bar>v\<bar>"
    and "\<bar>valof (round_to_double v) - v\<bar> \<le> \<bar>v\<bar> / 2 ^ 53 + tiny / 2"
proof -
  let ?m = "round_magnitude \<bar>v\<bar>"
  have b: "\<bar>?m - \<bar>v\<bar>\<bar> \<le> \<bar>v\<bar> / 2 ^ 53 + tiny / 2"
    by (rule round_magnitude_bound) simp
  have "?m \<le> \<bar>v\<bar> + \<bar>v\<bar> / 2 ^ 53 + tiny / 2" using b by linarith
  also have "\<dots> \<le> 3 * 2 ^ 1022 + (3 * 2 ^ 1022) / 2 ^ 53 + 1 / 2"
    using assms tiny_le_one by (intro add_mono divide_right_mono) simp_all
  also have "\<dots> < 2 ^ 1024" by simp
  finally have lt: "\<not> 2 ^ 1024 \<le> ?m" by simp
  have n: "0 \<le> ?m" by (rule round_magnitude_nonneg) simp
  show f: "is_finite (round_to_double v)"
    using lt by (simp add: round_to_double_def Let_def)
  show e: "valof (round_to_double v) = sgn v * ?m"
    using lt by (cases "0 \<le> v") (auto simp: round_to_double_def Let_def sgn_if abs_if round_magnitude_0)
  have "\<bar>sgn v * ?m - v\<bar> = \<bar>?m - \<bar>v\<bar>\<bar>"
    using n by (cases "0 \<le> v") (auto simp: sgn_if abs_if round_magnitude_0)
  with b show "\<bar>valof (round_to_double v) - v\<bar> \<le> \<bar>v\<bar> / 2 ^ 53 + tiny / 2"
    by (simp add: e)
qed

lemma rounded_square_accurate: "pow_accurate rounded_square"
  unfolding pow_accurate_def
proof (intro allI impI)
  fix a :: real
  assume a: "0 < a \<and> a ^ 2 \<le> 2 ^ 1023"
  then have v: "\<bar>a ^ 2\<bar> \<le> 3 * 2 ^ 1022" by simp
  have pos: "0 < a ^ 2" using a by simp
  let ?r = "round_to_double (a ^ 2)"
  have m: "0 \<le> round_magnitude (a ^ 2)" by (rule round_magnitude_nonneg) simp
  have "\<not> 2 ^ 1024 \<le> round_magnitude \<bar>a ^ 2\<bar>"
  proof -
    note round_to_double_finite(1) [OF v]
    then show ?thesis by (auto simp: round_to_double_def Let_def split: if_splits)
  qed
  then have eq: "?r = Finite (round_magnitude (a ^ 2))"
    using pos by (simp add: round_to_double_def Let_def)
  have "\<bar>round_magnitude (a ^ 2) - a ^ 2\<bar> \<le> a ^ 2 / 2 ^ 53 + tiny / 2"
    by (rule round_magnitude_bound) simp
  also have "\<dots> \<le> a ^ 2 / 2 ^ 52 + tiny"
    using tiny_pos pos by (intro add_mono) (simp_all add: field_simps)
  finally show "\<exists>p. rounded_square a = Finite p \<and> 0 \<le> p \<and> \<bar>p - a ^ 2\<bar> \<le> a ^ 2 / 2 ^ 52 + tiny"
    using m by (simp add: rounded_square_def eq)
qed

section \<open>The float operations of the objective\<close>

lemma float_pow2_finite:
  assumes "pow_accurate pow2" "is_finite x" "(valof x) ^ 2 \<le> 2 ^ 1023"
  shows "\<exists>p. float_pow2 pow2 x = Inr (Finite p) \<and> 0 \<le> p
           \<and> \<bar>p - (valof x) ^ 2\<bar> \<le> (valof x) ^ 2 / 2 ^ 52 + tiny
           \<and> (valof x = 0 \<longrightarrow> p = 0)"
proof (cases x)
  case (Finite iv)
  show ?thesis
  proof (cases "iv = 0 \<or> \<bar>iv\<bar> = 1")
    case True
    then have "iv = 0 \<or> iv ^ 2 = 1" by (auto simp: abs_if split: if_splits)
    with True show ?thesis
      using tiny_pos by (auto simp: Finite float_pow2_def)
  next
    case False
    then have "0 < \<bar>iv\<bar> \<and> \<bar>iv\<bar> ^ 2 \<le> 2 ^ 1023" using assms(3) by (simp add: Finite)
    with assms(1) obtain p where p: "pow2 \<bar>iv\<bar> = Finite p" "0 \<le> p"
        "\<bar>p - \<bar>iv\<bar> ^ 2\<bar> \<le> \<bar>iv\<bar> ^ 2 / 2 ^ 52 + tiny"
      unfolding pow_accurate_def by blast
    with False show ?thesis by (simp add: Finite float_pow2_def)
  qed
next
  case NegZero
  then show ?thesis using tiny_pos by (simp add: float_pow2_def)
qed (use assms(2) in simp_all)

lemma float_add_finite:
  assumes "0 \<le> p" "0 \<le> q" "p + q \<le> 3 * 2 ^ 1022"
  shows "is_finite (float_add (Finite p) (Finite q))"
    and "0 \<le> valof (float_add (Finite p) (Finite q))"
    and "\<bar>valof (float_add (Finite p) (Finite q)) - (p + q)\<bar> \<le> (p + q) / 2 ^ 53 + tiny / 2"
    and "valof (float_add (Finite p) (Finite q)) = 0 \<Longrightarrow> p + q \<le> tiny"
proof -
  let ?s = "p + q"
  let ?z = "float_add (Finite p) (Finite q)"
  have s: "0 \<le> ?s" "\<bar>?s\<bar> \<le> 3 * 2 ^ 1022" using assms by simp_all
  note r = round_to_double_finite [OF s(2)]
  have z: "?z = (if ?s = 0 then Finite 0 else round_to_double ?s)"
    by (simp add: float_add_def Let_def)
  show "is_finite ?z" using r(1) by (simp add: z)
  have v: "valof ?z = round_magnitude ?s"
  proof (cases "?s = 0")
    case True
    then show ?thesis by (simp add: z round_magnitude_0)
  next
    case False
    with s(1) have "0 < ?s" by simp
    then show ?thesis using r(2) by (simp add: z)
  qed
  show "0 \<le> valof ?z" unfolding v by (rule round_magnitude_nonneg [OF s(1)])
  show "\<bar>valof ?z - ?s\<bar> \<le> ?s / 2 ^ 53 + tiny / 2"
    unfolding v by (rule round_magnitude_bound [OF s(1)])
  show "valof ?z = 0 \<Longrightarrow> ?s \<le> tiny"
    unfolding v by (rule round_magnitude_zero [OF s(1)])
qed

lemma float_neg_finite:
  "is_finite z \<Longrightarrow> is_finite (float_neg z) \<and> valof (float_neg z) = - valof z"
  by (cases z) simp_all

lemma float_le_zero: "is_finite r \<Longrightarrow> float_le r (Finite 0) = (valof r \<le> 0)"
  by (cases r) simp_all

lemma float_eq_zero: "is_finite r \<Longrightarrow> float_eq r (Finite 0) = (valof r = 0)"
  by (cases r) simp_all

lemma objective_function_finite:
  assumes acc: "pow_accurate pow2"
    and fx: "is_finite x" and fy: "is_finite y"
    and S: "(valof x) ^ 2 + (valof y) ^ 2 \<le> 2 ^ 1023"
  shows "\<exists>r. objective_function pow2 x y = Inr r \<and> is_finite r \<and> valof r \<le> 0
           \<and> \<bar>valof r + ((valof x) ^ 2 + (valof y) ^ 2)\<bar>
                \<le> ((valof x) ^ 2 + (valof y) ^ 2) / 2 ^ 51 + 4 * tiny
           \<and> (valof r = 0 \<longrightarrow> (valof x) ^ 2 \<le> 4 * tiny \<and> (valof y) ^ 2 \<le> 4 * tiny)
           \<and> (valof x = 0 \<and> valof y = 0 \<longrightarrow> valof r = 0)"
proof -
  define A where "A = (valof x) ^ 2"
  define B where "B = (valof y) ^ 2"
  have A1: "0 \<le> A" and B1: "0 \<le> B" by (simp_all add: A_def B_def)
  have S': "A + B \<le> 2 ^ 1023" using S by (simp add: A_def B_def)
  have A2: "A \<le> 2 ^ 1023" using S' B1 by argo
  have B2: "B \<le> 2 ^ 1023" using S' A1 by argo
  from float_pow2_finite [OF acc fx] A2 obtain p
    where p: "float_pow2 pow2 x = Inr (Finite p)" "0 \<le> p" "\<bar>p - A\<bar> \<le> A / 2 ^ 52 + tiny"
      "valof x = 0 \<longrightarrow> p = 0" unfolding A_def by blast
  from float_pow2_finite [OF acc fy] B2 obtain q
    where q: "float_pow2 pow2 y = Inr (Finite q)" "0 \<le> q" "\<bar>q - B\<bar> \<le> B / 2 ^ 52 + tiny"
      "valof y = 0 \<longrightarrow> q = 0" unfolding B_def by blast
  define z where "z = float_add (Finite p) (Finite q)"
  define r where "r = float_neg z"
  have obj: "objective_function pow2 x y = Inr r"
    by (simp add: objective_function_def p(1) q(1) and_then_def r_def z_def)
  have t1: "tiny \<le> 1" by (rule tiny_le_one)
  have t0: "0 < tiny" by (rule tiny_pos)
  define Au where "Au = A / 2 ^ 52"
  define Bu where "Bu = B / 2 ^ 52"
  have Au: "0 \<le> Au" "2 * Au \<le> A" and Bu: "0 \<le> Bu" "2 * Bu \<le> B"
    using A1 B1 unfolding Au_def Bu_def by simp_all
  have Su: "(A + B) / 2 ^ 51 = 2 * (Au + Bu)"
    unfolding Au_def Bu_def by (simp add: add_divide_distrib)
  have Au2: "Au \<le> 2 ^ 1023 / 2 ^ 52"
    unfolding Au_def using A2 by (rule divide_right_mono) simp
  have Bu2: "Au + Bu \<le> 2 ^ 1023 / 2 ^ 52"
  proof -
    have "Au + Bu = (A + B) / 2 ^ 52" unfolding Au_def Bu_def by (simp add: add_divide_distrib)
    also have "\<dots> \<le> 2 ^ 1023 / 2 ^ 52" using S' by (rule divide_right_mono) simp
    finally show ?thesis .
  qed
  note p3 = p(3) [folded Au_def] and q3 = q(3) [folded Bu_def]
  have pq: "p + q \<le> (A + B) + (Au + Bu) + 2 * tiny"
    using p3 q3 by argo
  have "p + q \<le> 2 ^ 1023 + 2 ^ 1023 / 2 ^ 52 + 2"
    using pq S' Bu2 t1 by argo
  also have "\<dots> \<le> 3 * 2 ^ 1022" by simp
  finally have le: "p + q \<le> 3 * 2 ^ 1022" .
  note zf = float_add_finite [OF p(2) q(2) le, folded z_def]
  note rf = float_neg_finite [OF zf(1), folded r_def]
  have v: "valof r = - valof z" using rf by simp
  have nonpos: "valof r \<le> 0" using zf(2) v by simp
  define W where "W = (p + q) / 2 ^ 53"
  have W: "W \<le> Au + Bu + tiny"
  proof -
    have "p + q \<le> 2 * (A + B) + 2 * tiny" using pq Au(2) Bu(2) A1 B1 by argo
    then have "W \<le> (2 * (A + B) + 2 * tiny) / 2 ^ 53"
      unfolding W_def by (rule divide_right_mono) simp
    also have "\<dots> = Au + Bu + tiny / 2 ^ 52"
      unfolding Au_def Bu_def by (simp add: add_divide_distrib)
    also have "tiny / 2 ^ 52 \<le> tiny / 1"
      using t0 by (intro divide_left_mono) simp_all
    finally show ?thesis by simp
  qed
  have err: "\<bar>valof r + (A + B)\<bar> \<le> (A + B) / 2 ^ 51 + 4 * tiny"
    using zf(3) [folded W_def] W p3 q3 t0 unfolding v Su by argo
  have zero: "valof r = 0 \<longrightarrow> A \<le> 4 * tiny \<and> B \<le> 4 * tiny"
  proof
    assume "valof r = 0"
    then have "valof z = 0" using v by simp
    from zf(4) [OF this] have s: "p + q \<le> tiny" .
    from s p(2) q(2) p3 q3 Au Bu show "A \<le> 4 * tiny \<and> B \<le> 4 * tiny"
      by (intro conjI) argo+
  qed
  have orig: "valof x = 0 \<and> valof y = 0 \<longrightarrow> valof r = 0"
  proof
    assume "valof x = 0 \<and> valof y = 0"
    with p(4) q(4) have "p = 0" "q = 0" by simp_all
    then show "valof r = 0" by (simp add: r_def z_def float_add_def)
  qed
  from obj rf nonpos err zero orig show ?thesis unfolding A_def B_def by blast
qed

section \<open>The objective at some doubles\<close>

lemma round_to_double_normal:
  assumes "- 1022 \<le> e" "2 powi e \<le> \<bar>v\<bar>" "\<bar>v\<bar> < 2 powi (e + 1)"
  shows "round_to_double v =
     (let m = of_int (round_even (\<bar>v\<bar> / 2 powi (e - 52))) * 2 powi (e - 52)
      in if 2 ^ 1024 \<le> m then (if 0 < v then PosInf else NegInf)
         else if 0 \<le> v then Finite m
         else if m = 0 then NegZero else Finite (- m))"
  by (simp add: round_to_double_def round_magnitude_normal [OF assms])

lemma round_to_double_subnormal:
  assumes "\<bar>v\<bar> < 2 powi (- 1021)"
  shows "round_to_double v =
     (let m = of_int (round_even (\<bar>v\<bar> / tiny)) * tiny
      in if 0 \<le> v then Finite m else if m = 0 then NegZero else Finite (- m))"
proof -
  have "round_magnitude \<bar>v\<bar> = of_int (round_even (\<bar>v\<bar> / tiny)) * tiny"
    by (rule round_magnitude_subnormal [OF abs_ge_zero assms])
  moreover have "\<not> 2 ^ 1024 \<le> round_magnitude \<bar>v\<bar>"
  proof -
    have "(2::real) powi (- 1021) \<le> 1" by (simp add: power_int_minus_divide)
    with assms have "\<bar>v\<bar> \<le> 1" by linarith
    also have "(1::real) \<le> 3 * 2 ^ 1022" by simp
    finally have "\<bar>v\<bar> \<le> 3 * 2 ^ 1022" .
    from round_to_double_finite(1) [OF this] show ?thesis
      by (auto simp: round_to_double_def Let_def split: if_splits)
  qed
  ultimately show ?thesis by (simp add: round_to_double_def Let_def)
qed

lemma double_0_1: "round_to_double 0.1 = Finite (3602879701896397 / 2 ^ 55)"
  by (simp add: round_to_double_normal [where e = "- 4"] round_even_def)

lemma double_0_2: "round_to_double 0.2 = Finite (3602879701896397 / 2 ^ 54)"
  by (simp add: round_to_double_normal [where e = "- 3"] round_even_def)

lemma pow2_0_1: "float_pow2 rounded_square (Finite (3602879701896397 / 2 ^ 55))
    = Inr (Finite (1441151880758559 / 2 ^ 57))"
  by (simp add: float_pow2_def rounded_square_def power2_eq_square
      round_to_double_normal [where e = "- 7"] round_even_def)

lemma pow2_0_2: "float_pow2 rounded_square (Finite (3602879701896397 / 2 ^ 54))
    = Inr (Finite (1441151880758559 / 2 ^ 55))"
  by (simp add: float_pow2_def rounded_square_def power2_eq_square
      round_to_double_normal [where e = "- 5"] round_even_def)

lemma neg_add_0_1_0_2: "float_neg (float_add (Finite (1441151880758559 / 2 ^ 57)) (Finite (1441151880758559 / 2 ^ 55)))
    = Finite (- (7205759403792795 / 2 ^ 57))"
  by (simp add: float_add_def round_to_double_normal [where e = "- 5"] round_even_def)

lemma objective_0_1_0_2: "objective_function rounded_square (round_to_double 0.1) (round_to_double 0.2)
    = Inr (Finite (- (7205759403792795 / 2 ^ 57)))"
  by (simp only: objective_function_def double_0_1 double_0_2 pow2_0_1 pow2_0_2 neg_add_0_1_0_2 and_then_def sum.case)

lemma objective_0_1_0_2_inexact: "- (7205759403792795 / 2 ^ 57) \<noteq> spec_objective (3602879701896397 / 2 ^ 55) (3602879701896397 / 2 ^ 54)"
  by (simp add: spec_objective_def power2_eq_square)

lemma double_1e_minus_200: "round_to_double (1 / 10 ^ 200) = Finite (1723641332219371 / 2 ^ 715)"
  by (simp add: round_to_double_normal [where e = "- 665"] round_even_def)

lemma pow2_1e_minus_200: "float_pow2 rounded_square (Finite (1723641332219371 / 2 ^ 715)) = Inr (Finite 0)"
  by (simp add: float_pow2_def rounded_square_def power2_eq_square
      round_to_double_subnormal round_even_def tiny_def)

lemma double_1e200: "round_to_double (10 ^ 200) = Finite (2941796710330669 * 2 ^ 613)"
  by (simp add: round_to_double_normal [where e = "664"] round_even_def)

lemma pow2_1e200: "float_pow2 rounded_square (Finite (2941796710330669 * 2 ^ 613))
    = Inl (OverflowError ''Numerical result out of range'')"
  by (simp add: float_pow2_def rounded_square_def power2_eq_square
      round_to_double_normal [where e = "1328"] round_even_def)

lemma double_best_x: "round_to_double 0.9199895185372754 = Finite (8286528905738471 / 2 ^ 53)"
  by (simp add: round_to_double_normal [where e = "- 1"] round_even_def)

lemma double_best_y: "round_to_double (- 1.2829684963313963) = Finite (- (2888988221003081 / 2 ^ 51))"
  by (simp add: round_to_double_normal [where e = "0"] round_even_def)

lemma double_best_target: "round_to_double (- 2.4923888767972917) = Finite (- (2806180404201663 / 2 ^ 50))"
  by (simp add: round_to_double_normal [where e = "1"] round_even_def)

lemma pow2_best_x: "float_pow2 rounded_square (Finite (8286528905738471 / 2 ^ 53))
    = Inr (Finite (7623519738335551 / 2 ^ 53))"
  by (simp add: float_pow2_def rounded_square_def power2_eq_square
      round_to_double_normal [where e = "- 1"] round_even_def)

lemma pow2_best_y: "float_pow2 rounded_square (Finite (- (2888988221003081 / 2 ^ 51)))
    = Inr (Finite (7412961747638877 / 2 ^ 52))"
  by (simp add: float_pow2_def rounded_square_def power2_eq_square
      round_to_double_normal [where e = "0"] round_even_def)

lemma neg_add_best: "float_neg (float_add (Finite (7623519738335551 / 2 ^ 53)) (Finite (7412961747638877 / 2 ^ 52)))
    = Finite (- (2806180404201663 / 2 ^ 50))"
  by (simp add: float_add_def round_to_double_normal [where e = "1"] round_even_def)

lemma objective_best: "objective_function rounded_square (round_to_double 0.9199895185372754)
      (round_to_double (- 1.2829684963313963)) = Inr (round_to_double (- 2.4923888767972917))"
  by (simp only: objective_function_def double_best_x double_best_y double_best_target pow2_best_x pow2_best_y neg_add_best and_then_def sum.case)

lemma double_minus_0_05:
  "round_to_double (- 0.05000000000000001) = Finite (- (7205759403792795 / 2 ^ 57))"
  by (simp add: round_to_double_normal [where e = "- 5"] round_even_def)

lemma objective_origin: "objective_function pow2 (Finite 0) (Finite 0) = Inr NegZero"
  by (simp add: objective_function_def float_pow2_def and_then_def float_add_def)

lemma objective_1e_minus_200:
  "objective_function rounded_square (Finite (1723641332219371 / 2 ^ 715)) (Finite 0) = Inr NegZero"
proof -
  have z: "float_pow2 rounded_square (Finite 0) = Inr (Finite 0)"
    by (simp add: float_pow2_def)
  have n: "float_neg (float_add (Finite 0) (Finite 0)) = NegZero"
    by (simp add: float_add_def)
  show ?thesis
    by (simp only: objective_function_def pow2_1e_minus_200 z n and_then_def sum.case)
qed

lemma objective_1e200:
  "objective_function rounded_square (Finite (2941796710330669 * 2 ^ 613)) (Finite 0)
     = Inl (OverflowError ''Numerical result out of range'')"
  by (simp only: objective_function_def pow2_1e200 and_then_def sum.case)

lemma pow2_3: "float_pow2 rounded_square (Finite 3) = Inr (Finite 9)"
  by (simp add: float_pow2_def rounded_square_def
      round_to_double_normal [where e = "3"] round_even_def)

lemma pow2_minus_4: "float_pow2 rounded_square (Finite (- 4)) = Inr (Finite 16)"
  by (simp add: float_pow2_def rounded_square_def
      round_to_double_normal [where e = "4"] round_even_def)

lemma neg_add_9_16: "float_neg (float_add (Finite 9) (Finite 16)) = Finite (- 25)"
  by (simp add: float_add_def round_to_double_normal [where e = "4"] round_even_def)

lemma objective_3_minus_4:
  "objective_function rounded_square (Finite 3) (Finite (- 4)) = Inr (Finite (- 25))"
  by (simp only: objective_function_def pow2_3 pow2_minus_4 neg_add_9_16 and_then_def sum.case)

lemma spec_objective_nonpos: "spec_objective x y \<le> 0"
  by (simp add: spec_objective_def)

lemma spec_objective_zero_iff: "spec_objective x y = 0 \<longleftrightarrow> x = 0 \<and> y = 0"
proof
  assume "spec_objective x y = 0"
  then have "- (x ^ 2 + y ^ 2) = 0" by (simp only: spec_objective_def)
  then have "x ^ 2 + y ^ 2 = 0" by (simp only: neg_equal_0_iff_equal)
  then show "x = 0 \<and> y = 0" by simp
next
  assume "x = 0 \<and> y = 0"
  then show "spec_objective x y = 0" by (simp add: spec_objective_def)
qed

lemma in_bounds_pbounds:
  "in_bounds pbounds n v \<longleftrightarrow> (n = ''x'' \<or> n = ''y'') \<and> - 10 \<le> v \<and> v \<le> 10"
  by (auto simp: in_bounds_def pbounds_def)

lemma in_bounds_square:
  assumes "float_in_bounds pbounds n x"
  shows "is_finite x" and "(valof x) ^ 2 \<le> 100"
proof -
  from assms show "is_finite x" by (simp add: float_in_bounds_def)
  from assms have "\<bar>valof x\<bar> \<le> 10"
    by (simp add: float_in_bounds_def in_bounds_pbounds abs_le_iff)
  then have "\<bar>valof x\<bar> \<le> \<bar>10\<bar>" by simp
  then have "(valof x) ^ 2 \<le> 10 ^ 2"
    by (simp only: abs_le_square_iff)
  then show "(valof x) ^ 2 \<le> 100" by simp
qed

section \<open>The value of the objective\<close>

text \<open>
  Claim C5, as amended. For every pair of finite float inputs x and y whose exact squares
  sum to at most 2^1023, and a C library whose pow is accurate to one unit in the last
  place at exponent 2, the objective function returns a finite float that differs from
  -(x^2 + y^2) by at most (x^2 + y^2) / 2^51 + 4 * 2^-1074: the value of -(x^2 + y^2)
  up to the rounding of the two powers and of the sum, not exactly.
\<close>

theorem objective_function_value:
  "pow_accurate pow2 \<and> is_finite x \<and> is_finite y
     \<and> (valof x) ^ 2 + (valof y) ^ 2 \<le> 2 ^ 1023 \<longrightarrow>
   (\<exists>r. objective_function pow2 x y = Inr r \<and> is_finite r
      \<and> \<bar>valof r - spec_objective (valof x) (valof y)\<bar>
           \<le> - spec_objective (valof x) (valof y) / 2 ^ 51 + 4 * tiny)"
proof
  assume h: "pow_accurate pow2 \<and> is_finite x \<and> is_finite y
     \<and> (valof x) ^ 2 + (valof y) ^ 2 \<le> 2 ^ 1023"
  then have acc: "pow_accurate pow2" and fx: "is_finite x" and fy: "is_finite y"
    and S: "(valof x) ^ 2 + (valof y) ^ 2 \<le> 2 ^ 1023" by simp_all
  from objective_function_finite [OF acc fx fy S] obtain r
    where r: "objective_function pow2 x y = Inr r" "is_finite r"
      "\<bar>valof r + ((valof x) ^ 2 + (valof y) ^ 2)\<bar>
         \<le> ((valof x) ^ 2 + (valof y) ^ 2) / 2 ^ 51 + 4 * tiny"
    by blast
  from r(3) have "\<bar>valof r - spec_objective (valof x) (valof y)\<bar>
      \<le> - spec_objective (valof x) (valof y) / 2 ^ 51 + 4 * tiny"
    by (simp only: spec_objective_def diff_minus_eq_add minus_minus)
  with r(1,2) show "\<exists>r. objective_function pow2 x y = Inr r \<and> is_finite r
      \<and> \<bar>valof r - spec_objective (valof x) (valof y)\<bar>
           \<le> - spec_objective (valof x) (valof y) / 2 ^ 51 + 4 * tiny"
    by blast
qed

text \<open>
  At the doubles of the literals 0.1 and 0.2, with the squares rounded correctly: the
  result is the double printed as -0.05000000000000001, within the bound.
\<close>

theorem objective_function_value_witness:
  "pow_accurate rounded_square
   \<and> is_finite (round_to_double 0.1) \<and> is_finite (round_to_double 0.2)
   \<and> (valof (round_to_double 0.1)) ^ 2 + (valof (round_to_double 0.2)) ^ 2 \<le> 2 ^ 1023
   \<and> objective_function rounded_square (round_to_double 0.1) (round_to_double 0.2)
       = Inr (Finite (- (7205759403792795 / 2 ^ 57)))
   \<and> \<bar>- (7205759403792795 / 2 ^ 57)
         - spec_objective (valof (round_to_double 0.1)) (valof (round_to_double 0.2))\<bar>
       \<le> - spec_objective (valof (round_to_double 0.1)) (valof (round_to_double 0.2)) / 2 ^ 51
           + 4 * tiny"
proof -
  let ?x = "round_to_double 0.1" and ?y = "round_to_double 0.2"
  have f: "is_finite ?x \<and> is_finite ?y"
    by (simp only: double_0_1 double_0_2 is_finite.simps)
  have s: "(valof ?x) ^ 2 + (valof ?y) ^ 2 \<le> 2 ^ 1023"
    unfolding double_0_1 double_0_2 by (simp add: power2_eq_square)
  from objective_function_value [of rounded_square ?x ?y] rounded_square_accurate f s
  obtain r where r: "objective_function rounded_square ?x ?y = Inr r"
    "\<bar>valof r - spec_objective (valof ?x) (valof ?y)\<bar>
       \<le> - spec_objective (valof ?x) (valof ?y) / 2 ^ 51 + 4 * tiny"
    by blast
  from r(1) have "r = Finite (- (7205759403792795 / 2 ^ 57))"
    by (simp only: objective_0_1_0_2 sum.inject)
  with r(2) have "\<bar>- (7205759403792795 / 2 ^ 57) - spec_objective (valof ?x) (valof ?y)\<bar>
       \<le> - spec_objective (valof ?x) (valof ?y) / 2 ^ 51 + 4 * tiny"
    by (simp only: valof.simps)
  with rounded_square_accurate f s objective_0_1_0_2 show ?thesis by blast
qed

text \<open>
  The claim as first stated fails: at the doubles of 0.1 and 0.2 the result, printed as
  -0.05000000000000001, is not -(x^2 + y^2); and at the double of 1e200 the call raises
  OverflowError and returns nothing.
\<close>

theorem objective_function_exact_counterexample:
  "round_to_double 0.1 = Finite (3602879701896397 / 2 ^ 55)
   \<and> round_to_double 0.2 = Finite (3602879701896397 / 2 ^ 54)
   \<and> objective_function rounded_square (round_to_double 0.1) (round_to_double 0.2)
       = Inr (Finite (- (7205759403792795 / 2 ^ 57)))
   \<and> round_to_double (- 0.05000000000000001) = Finite (- (7205759403792795 / 2 ^ 57))
   \<and> - (7205759403792795 / 2 ^ 57)
       \<noteq> spec_objective (3602879701896397 / 2 ^ 55) (3602879701896397 / 2 ^ 54)
   \<and> round_to_double (10 ^ 200) = Finite (2941796710330669 * 2 ^ 613)
   \<and> objective_function rounded_square (Finite (2941796710330669 * 2 ^ 613)) (Finite 0)
       = Inl (OverflowError ''Numerical result out of range'')"
  using double_0_1 double_0_2 objective_0_1_0_2 double_minus_0_05 objective_0_1_0_2_inexact
    double_1e200 objective_1e200
  by blast

section \<open>The maximum of the objective\<close>

text \<open>
  Claim C6, as amended. The objective in the spec's words has its true maximum 0 over the
  bounds, attained exactly at (0, 0). The code, for float inputs within the bounds and a C
  library whose pow is accurate to one unit in the last place, returns a float that is at
  most 0; it is equal to 0 at x = 0, y = 0, where the result is the negative zero, and
  wherever else it is equal to 0 the squares of x and y are at most 4 * 2^-1074 (both
  underflow). The best record of the recorded run, after the 12 evaluations of its table,
  has target about -2.49 at about (0.92, -1.28).
\<close>

theorem objective_function_maximum:
  "(pow_accurate pow2 \<and> float_in_bounds pbounds ''x'' x \<and> float_in_bounds pbounds ''y'' y \<longrightarrow>
      (\<exists>r. objective_function pow2 x y = Inr r \<and> float_le r (Finite 0)
         \<and> (float_eq x (Finite 0) \<and> float_eq y (Finite 0) \<longrightarrow> float_eq r (Finite 0))
         \<and> (float_eq r (Finite 0) \<longrightarrow>
              (valof x) ^ 2 \<le> 4 * tiny \<and> (valof y) ^ 2 \<le> 4 * tiny)))
   \<and> (in_bounds pbounds ''x'' a \<and> in_bounds pbounds ''y'' b \<longrightarrow>
      spec_objective a b \<le> 0 \<and> (spec_objective a b = 0 \<longleftrightarrow> a = 0 \<and> b = 0))
   \<and> in_bounds pbounds ''x'' 0 \<and> in_bounds pbounds ''y'' 0 \<and> spec_objective 0 0 = 0
   \<and> float_in_bounds pbounds ''x'' (Finite 0) \<and> float_in_bounds pbounds ''y'' (Finite 0)
   \<and> objective_function pow2 (Finite 0) (Finite 0) = Inr NegZero
   \<and> length printed_rows = 12
   \<and> \<bar>target printed_max - (- 2.49)\<bar> < 0.005
   \<and> params printed_max = [(''x'', 0.9199895185372754), (''y'', - 1.2829684963313963)]
   \<and> \<bar>0.9199895185372754 - 0.92 :: real\<bar> < 0.005
   \<and> \<bar>- 1.2829684963313963 - (- 1.28) :: real\<bar> < 0.005
   \<and> in_bounds pbounds ''x'' 0.9199895185372754
   \<and> in_bounds pbounds ''y'' (- 1.2829684963313963)"
proof -
  have code: "pow_accurate pow2 \<and> float_in_bounds pbounds ''x'' x \<and> float_in_bounds pbounds ''y'' y \<longrightarrow>
      (\<exists>r. objective_function pow2 x y = Inr r \<and> float_le r (Finite 0)
         \<and> (float_eq x (Finite 0) \<and> float_eq y (Finite 0) \<longrightarrow> float_eq r (Finite 0))
         \<and> (float_eq r (Finite 0) \<longrightarrow>
              (valof x) ^ 2 \<le> 4 * tiny \<and> (valof y) ^ 2 \<le> 4 * tiny))"
  proof
    assume h: "pow_accurate pow2 \<and> float_in_bounds pbounds ''x'' x \<and> float_in_bounds pbounds ''y'' y"
    then have acc: "pow_accurate pow2" by simp
    from h in_bounds_square [of "''x''" x] in_bounds_square [of "''y''" y]
    have fx: "is_finite x" and fy: "is_finite y"
      and sx: "(valof x) ^ 2 \<le> 100" and sy: "(valof y) ^ 2 \<le> 100" by simp_all
    have "(valof x) ^ 2 + (valof y) ^ 2 \<le> 200" using sx sy by linarith
    also have "(200::real) \<le> 2 ^ 1023" by simp
    finally have S: "(valof x) ^ 2 + (valof y) ^ 2 \<le> 2 ^ 1023" .
    from objective_function_finite [OF acc fx fy S] obtain r
      where r: "objective_function pow2 x y = Inr r" "is_finite r" "valof r \<le> 0"
        "valof r = 0 \<longrightarrow> (valof x) ^ 2 \<le> 4 * tiny \<and> (valof y) ^ 2 \<le> 4 * tiny"
        "valof x = 0 \<and> valof y = 0 \<longrightarrow> valof r = 0"
      by blast
    have "float_le r (Finite 0)"
      using r(2,3) by (simp add: float_le_zero)
    moreover have "float_eq x (Finite 0) \<and> float_eq y (Finite 0) \<longrightarrow> float_eq r (Finite 0)"
      using r(2,5) fx fy by (simp add: float_eq_zero)
    moreover have "float_eq r (Finite 0) \<longrightarrow>
        (valof x) ^ 2 \<le> 4 * tiny \<and> (valof y) ^ 2 \<le> 4 * tiny"
      using r(2,4) by (simp add: float_eq_zero)
    ultimately show "\<exists>r. objective_function pow2 x y = Inr r \<and> float_le r (Finite 0)
         \<and> (float_eq x (Finite 0) \<and> float_eq y (Finite 0) \<longrightarrow> float_eq r (Finite 0))
         \<and> (float_eq r (Finite 0) \<longrightarrow>
              (valof x) ^ 2 \<le> 4 * tiny \<and> (valof y) ^ 2 \<le> 4 * tiny)"
      using r(1) by blast
  qed
  have spec: "in_bounds pbounds ''x'' a \<and> in_bounds pbounds ''y'' b \<longrightarrow>
      spec_objective a b \<le> 0 \<and> (spec_objective a b = 0 \<longleftrightarrow> a = 0 \<and> b = 0)"
    using spec_objective_nonpos [of a b] spec_objective_zero_iff [of a b] by blast
  have orig: "in_bounds pbounds ''x'' 0 \<and> in_bounds pbounds ''y'' 0 \<and> spec_objective 0 0 = 0
      \<and> float_in_bounds pbounds ''x'' (Finite 0) \<and> float_in_bounds pbounds ''y'' (Finite 0)"
    by (simp add: float_in_bounds_def in_bounds_pbounds spec_objective_def)
  have c: "length printed_rows = 12"
    by (simp add: printed_rows_def)
  have d: "\<bar>target printed_max - (- 2.49)\<bar> < 0.005"
    by (simp add: printed_max_def)
  have e: "params printed_max = [(''x'', 0.9199895185372754), (''y'', - 1.2829684963313963)]
      \<and> \<bar>0.9199895185372754 - 0.92 :: real\<bar> < 0.005
      \<and> \<bar>- 1.2829684963313963 - (- 1.28) :: real\<bar> < 0.005
      \<and> in_bounds pbounds ''x'' 0.9199895185372754
      \<and> in_bounds pbounds ''y'' (- 1.2829684963313963)"
    by (simp add: printed_max_def in_bounds_pbounds)
  from code spec orig objective_origin [of pow2] c d e show ?thesis by blast
qed

text \<open>At the point (3, -4) of the search space, with the squares rounded correctly.\<close>

theorem objective_function_maximum_witness:
  "pow_accurate rounded_square
   \<and> float_in_bounds pbounds ''x'' (Finite 3) \<and> float_in_bounds pbounds ''y'' (Finite (- 4))
   \<and> objective_function rounded_square (Finite 3) (Finite (- 4)) = Inr (Finite (- 25))
   \<and> float_le (Finite (- 25)) (Finite 0)
   \<and> \<not> float_eq (Finite (- 25)) (Finite 0)
   \<and> in_bounds pbounds ''x'' 3 \<and> in_bounds pbounds ''y'' (- 4)
   \<and> spec_objective 3 (- 4) = - 25"
proof -
  have h: "float_in_bounds pbounds ''x'' (Finite 3) \<and> float_in_bounds pbounds ''y'' (Finite (- 4))"
    and hs: "in_bounds pbounds ''x'' 3 \<and> in_bounds pbounds ''y'' (- 4)"
    by (simp_all add: float_in_bounds_def in_bounds_pbounds)
  have v: "spec_objective 3 (- 4) = - 25"
    by (simp add: spec_objective_def)
  from objective_function_maximum [of rounded_square "Finite 3" "Finite (- 4)" 3 "- 4"]
    rounded_square_accurate h
  obtain r where r: "objective_function rounded_square (Finite 3) (Finite (- 4)) = Inr r"
    "float_le r (Finite 0)"
    by blast
  from r(1) have "r = Finite (- 25)"
    by (simp only: objective_3_minus_4 sum.inject)
  with r(2) have "float_le (Finite (- 25)) (Finite 0)" by simp
  moreover have "\<not> float_eq (Finite (- 25)) (Finite 0)" by simp
  ultimately show ?thesis
    using rounded_square_accurate h hs v objective_3_minus_4 by blast
qed

text \<open>
  The claim as first stated fails: the double of 1e-200 lies within the bounds and is not
  zero, its square underflows, and with y = 0 the objective returns the negative zero,
  which is equal to 0.
\<close>

theorem objective_function_zero_counterexample:
  "round_to_double (1 / 10 ^ 200) = Finite (1723641332219371 / 2 ^ 715)
   \<and> float_in_bounds pbounds ''x'' (Finite (1723641332219371 / 2 ^ 715))
   \<and> float_in_bounds pbounds ''y'' (Finite 0)
   \<and> objective_function rounded_square (Finite (1723641332219371 / 2 ^ 715)) (Finite 0)
       = Inr NegZero
   \<and> float_eq NegZero (Finite 0)
   \<and> \<not> float_eq (Finite (1723641332219371 / 2 ^ 715)) (Finite 0)"
proof -
  have b: "float_in_bounds pbounds ''x'' (Finite (1723641332219371 / 2 ^ 715))
      \<and> float_in_bounds pbounds ''y'' (Finite 0)"
    by (simp add: float_in_bounds_def in_bounds_pbounds)
  have e: "float_eq NegZero (Finite 0)
      \<and> \<not> float_eq (Finite (1723641332219371 / 2 ^ 715)) (Finite 0)"
    by simp
  from double_1e_minus_200 b objective_1e_minus_200 e show ?thesis by blast
qed

section \<open>The two objectives\<close>

text \<open>
  Claim C9. The objective of the Library A variant is the sum of the sine of x and the
  cosine of y, a different function from the objective of the Library B variant: at the
  origin the first is 1, while minus the sum of the squares is 0 there and never positive,
  and the code of the second returns the negative zero, which is equal to 0 and not to 1.
\<close>

theorem objective_functions_differ:
  "objective_function_skopt x y = sin x + cos y
   \<and> objective_function_skopt 0 0 = 1
   \<and> spec_objective 0 0 = 0
   \<and> spec_objective x y < objective_function_skopt 0 0
   \<and> objective_function_skopt \<noteq> spec_objective
   \<and> objective_function pow2 (Finite 0) (Finite 0) = Inr NegZero
   \<and> float_eq NegZero (Finite 0)
   \<and> \<not> float_eq NegZero (Finite (objective_function_skopt 0 0))"
proof -
  have a: "objective_function_skopt 0 0 = 1"
    by (simp add: objective_function_skopt_def)
  have b: "spec_objective 0 0 = 0"
    by (simp add: spec_objective_def)
  have c: "spec_objective x y < objective_function_skopt 0 0"
    using spec_objective_nonpos [of x y] a by simp
  have d: "objective_function_skopt \<noteq> spec_objective"
  proof
    assume "objective_function_skopt = spec_objective"
    then have "objective_function_skopt 0 0 = spec_objective 0 0" by simp
    with a b show False by simp
  qed
  have e: "float_eq NegZero (Finite 0) \<and> \<not> float_eq NegZero (Finite (objective_function_skopt 0 0))"
    by (simp add: a)
  from a b c d e objective_origin [of pow2] show ?thesis
    by (simp add: objective_function_skopt_def)
qed

section \<open>The search space\<close>

lemma Real_call_plain:
  "names k ''Real'' = Some (Callable ''skopt.space.Real'') \<Longrightarrow>
   Real_call lib [] k = Inr (Real_dim (- 10) 10 None, k)"
  by (simp add: Real_call_def lookup_def and_then_def call_def Real_init_def)

lemma Real_call_named:
  "names k ''Real'' = Some (Callable ''skopt.space.Real'') \<Longrightarrow>
   Real_call lib [(''name'', PyStr n)] k = Inr (Real_dim (- 10) 10 (Some n), k)"
  by (simp add: Real_call_def lookup_def and_then_def call_def Real_init_def)

lemma tuple_dimensions_value:
  "names k ''Real'' = Some (Callable ''skopt.space.Real'') \<Longrightarrow>
   tuple_dimensions lib k =
     Inr (PyList [PyTuple [PyStr ''x'', Real_dim (- 10) 10 None],
                  PyTuple [PyStr ''y'', Real_dim (- 10) 10 None]], k)"
  by (simp add: tuple_dimensions_def Real_call_plain and_then_def)

lemma typed_dimensions_value:
  "names k ''Real'' = Some (Callable ''skopt.space.Real'') \<Longrightarrow>
   typed_dimensions lib k =
     Inr (PyList [Real_dim (- 10) 10 (Some ''x''), Real_dim (- 10) 10 (Some ''y'')], k)"
  by (simp add: typed_dimensions_def Real_call_named and_then_def)

lemma names_after_imports:
  "names (after_imports k) ''Real'' = Some (Callable ''skopt.space.Real'')"
  "names (after_imports k) ''use_named_args'' = Some (Callable ''skopt.utils.use_named_args'')"
  "names (after_imports k) ''Space'' = names k ''Space''"
  by (simp_all add: after_imports_def)

text \<open>
  Claim C7. Every entry of the search space has its lower bound at most its upper bound:
  the bounds mapping of the Library B cell maps x and y to (-10, 10) and nothing else, and
  the dimensions the Library A cell builds, as written and as in its commented-out line,
  hold the interval (-10, 10) twice.
\<close>

theorem search_space_low_le_high:
  "(\<forall>(n, low, high) \<in> set pbounds. low \<le> high)
   \<and> map_of pbounds ''x'' = Some (- 10, 10) \<and> map_of pbounds ''y'' = Some (- 10, 10)
   \<and> map fst pbounds = [''x'', ''y'']
   \<and> (\<exists>ds. tuple_dimensions lib (after_imports k) = Inr (ds, after_imports k)
         \<and> intervals ds = [(- 10, 10), (- 10, 10)]
         \<and> (\<forall>(low, high) \<in> set (intervals ds). low \<le> high))
   \<and> (\<exists>ds. typed_dimensions lib (after_imports k) = Inr (ds, after_imports k)
         \<and> intervals ds = [(- 10, 10), (- 10, 10)]
         \<and> (\<forall>(low, high) \<in> set (intervals ds). low \<le> high))"
proof -
  have a: "\<forall>(n, low, high) \<in> set pbounds. low \<le> high"
    by (simp add: pbounds_def)
  have b: "map_of pbounds ''x'' = Some (- 10, 10) \<and> map_of pbounds ''y'' = Some (- 10, 10)
      \<and> map fst pbounds = [''x'', ''y'']"
    by (simp add: pbounds_def)
  have c: "\<exists>ds. tuple_dimensions lib (after_imports k) = Inr (ds, after_imports k)
         \<and> intervals ds = [(- 10, 10), (- 10, 10)]
         \<and> (\<forall>(low, high) \<in> set (intervals ds). low \<le> high)"
    by (simp add: tuple_dimensions_value [OF names_after_imports(1)])
  have d: "\<exists>ds. typed_dimensions lib (after_imports k) = Inr (ds, after_imports k)
         \<and> intervals ds = [(- 10, 10), (- 10, 10)]
         \<and> (\<forall>(low, high) \<in> set (intervals ds). low \<le> high)"
    by (simp add: typed_dimensions_value [OF names_after_imports(1)])
  from a b c d show ?thesis by blast
qed

theorem search_space_low_le_high_witness:
  "(''x'', - 10, 10) \<in> set pbounds \<and> (- 10 :: int) \<le> 10
   \<and> intervals (PyList [PyTuple [PyStr ''x'', Real_dim (- 10) 10 None],
                          PyTuple [PyStr ''y'', Real_dim (- 10) 10 None]])
       = [(- 10, 10), (- 10, 10)]
   \<and> tuple_dimensions silent_library (after_imports fresh_kernel)
       = Inr (PyList [PyTuple [PyStr ''x'', Real_dim (- 10) 10 None],
                      PyTuple [PyStr ''y'', Real_dim (- 10) 10 None]], after_imports fresh_kernel)"
proof -
  have m: "(''x'', - 10, 10) \<in> set pbounds"
    by (simp add: pbounds_def)
  from search_space_low_le_high [of silent_library fresh_kernel]
  have "\<forall>(n, low, high) \<in> set pbounds. low \<le> high" by blast
  with m have le: "(- 10 :: int) \<le> 10" by blast
  have t: "tuple_dimensions silent_library (after_imports fresh_kernel)
       = Inr (PyList [PyTuple [PyStr ''x'', Real_dim (- 10) 10 None],
                      PyTuple [PyStr ''y'', Real_dim (- 10) 10 None]], after_imports fresh_kernel)"
    by (rule tuple_dimensions_value [OF names_after_imports(1)])
  from m le t show ?thesis by simp
qed

section \<open>The sequential maximizer: rows and best record\<close>

lemma queries_length: "length (fst (queries propose f n st)) = length (fst st) + n"
  by (induction n arbitrary: st) (auto split: prod.splits)

lemma queries_probes:
  "\<forall>e \<in> set (fst st). target e = f (params e) \<Longrightarrow>
   \<forall>e \<in> set (fst (queries propose f n st)). target e = f (params e)"
proof (induction n arbitrary: st)
  case 0
  then show ?case by simp
next
  case (Suc n)
  obtain p s' where ps: "propose (fst st) (snd st) = (p, s')"
    by (cases "propose (fst st) (snd st)")
  have "\<forall>e \<in> set (fst (fst st @ [probe f p], s')). target e = f (params e)"
    using Suc.prems by (auto simp: probe_def)
  from Suc.IH [OF this] show ?case by (simp add: ps)
qed

lemma maximize_length: "length (maximize sample suggest f seed n_init n_opt) = n_init + n_opt"
  by (simp add: maximize_def queries_length)

lemma maximize_probes:
  "\<forall>e \<in> set (maximize sample suggest f seed n_init n_opt). target e = f (params e)"
  unfolding maximize_def
  by (rule queries_probes, rule queries_probes) simp

lemma progress_rows_rows: "map fst (progress_rows es) = [1 ..< Suc (length es)]"
  unfolding progress_rows_def by (rule map_fst_zip) (simp del: upt_Suc)

text \<open>
  Claim C3. The sequential maximizer prints one iteration row per evaluation, and the
  number of rows is the initial count plus the iteration count; the recorded run, called
  with 2 and 10, printed exactly the 12 rows numbered 1 to 12.
\<close>

theorem iteration_row_count:
  "length (progress_rows (maximize sample suggest f seed n_init n_opt)) = n_init + n_opt
   \<and> map fst (progress_rows (maximize sample suggest f seed n_init n_opt))
       = [1 ..< Suc (n_init + n_opt)]
   \<and> length printed_rows = init_points + n_iter
   \<and> init_points + n_iter = 12
   \<and> map row_iter printed_rows = [1 ..< Suc (init_points + n_iter)]"
proof -
  have a: "length (progress_rows (maximize sample suggest f seed n_init n_opt)) = n_init + n_opt"
    by (simp add: progress_rows_def maximize_length del: upt_Suc)
  have b: "map fst (progress_rows (maximize sample suggest f seed n_init n_opt))
       = [1 ..< Suc (n_init + n_opt)]"
    unfolding progress_rows_rows maximize_length ..
  have c: "length printed_rows = init_points + n_iter \<and> init_points + n_iter = 12"
    by (simp add: printed_rows_def init_points_def n_iter_def)
  have d: "map row_iter printed_rows = [1 ..< Suc (init_points + n_iter)]"
    by (simp add: printed_rows_def init_points_def n_iter_def upt_rec)
  from a b c d show ?thesis by simp
qed

lemma foldl_better_mem: "foldl better e es \<in> set (e # es)"
  by (induction es arbitrary: e) (auto simp: better_def)

lemma foldl_better_ge_start: "target e \<le> target (foldl better e es)"
proof (induction es arbitrary: e)
  case Nil
  show ?case by simp
next
  case (Cons a es)
  have "target e \<le> target (better e a)" by (simp add: better_def)
  also have "\<dots> \<le> target (foldl better (better e a) es)" by (rule Cons.IH)
  finally show ?case by simp
qed

lemma foldl_better_upper: "x \<in> set (e # es) \<Longrightarrow> target x \<le> target (foldl better e es)"
proof (induction es arbitrary: e)
  case Nil
  then show ?case by simp
next
  case (Cons a es)
  from Cons.prems consider "x = e" | "x = a" | "x \<in> set es" by auto
  then show ?case
  proof cases
    case 1
    then show ?thesis using foldl_better_ge_start [of e "a # es"] by simp
  next
    case 2
    have "target a \<le> target (better e a)" by (simp add: better_def)
    also have "\<dots> \<le> target (foldl better (better e a) es)" by (rule foldl_better_ge_start)
    finally show ?thesis using 2 by simp
  next
    case 3
    then have "x \<in> set (better e a # es)" by simp
    from Cons.IH [OF this] show ?thesis by simp
  qed
qed

lemma optimizer_max_Max:
  assumes "es \<noteq> []"
  shows "\<exists>b. optimizer_max es = Some b \<and> b \<in> set es \<and> target b = Max (target ` set es)"
proof -
  from assms obtain e es' where es: "es = e # es'" by (cases es) auto
  let ?b = "foldl better e es'"
  have mem: "?b \<in> set es" unfolding es by (rule foldl_better_mem)
  have "Max (target ` set es) = target ?b"
  proof (rule Max_eqI)
    show "finite (target ` set es)" by simp
    show "target ?b \<in> target ` set es" using mem by (rule imageI)
    fix v assume "v \<in> target ` set es"
    then obtain x where "x \<in> set (e # es')" "v = target x" unfolding es by auto
    then show "v \<le> target ?b" using foldl_better_upper by blast
  qed
  then show ?thesis using mem by (simp add: es)
qed

text \<open>
  Claim C1, as amended. The best result the sequential maximizer reports is the
  evaluation record with the maximal objective value among the records of the run. In the
  recorded run the table prints its targets rounded: the maximum of the twelve printed
  targets is the -2.492 of row 4, the last row the table marks, and the printed best
  target -2.4923888767972917 agrees with it to within 0.0005, as its parameters do with
  the x and y of that row; the printed best target is minus the sum of the squares of the
  printed best parameters up to 1e-15, and with the squares rounded correctly the objective
  at the doubles of the printed parameters returns the double of the printed target.
\<close>

theorem best_result_is_maximum:
  "(0 < n_init + n_opt \<longrightarrow>
      (\<exists>b. optimizer_max (maximize sample suggest f seed n_init n_opt) = Some b
         \<and> b \<in> set (maximize sample suggest f seed n_init n_opt)
         \<and> target b = f (params b)
         \<and> target b = Max (target ` set (maximize sample suggest f seed n_init n_opt))))
   \<and> optimizer_max (map row_evaluation printed_rows) = Some (row_evaluation (printed_rows ! 3))
   \<and> Max (set (map row_target printed_rows)) = row_target (printed_rows ! 3)
   \<and> row_iter (printed_rows ! 3) = 4
   \<and> row_target (printed_rows ! 3) = - 2.492
   \<and> last (filter row_marked printed_rows) = printed_rows ! 3
   \<and> \<bar>target printed_max - row_target (printed_rows ! 3)\<bar> < 0.0005
   \<and> params printed_max = [(''x'', 0.9199895185372754), (''y'', - 1.2829684963313963)]
   \<and> \<bar>0.9199895185372754 - row_x (printed_rows ! 3)\<bar> < 0.0005
   \<and> \<bar>- 1.2829684963313963 - row_y (printed_rows ! 3)\<bar> < 0.0005
   \<and> \<bar>spec_objective 0.9199895185372754 (- 1.2829684963313963) - target printed_max\<bar>
        < 1 / 10 ^ 15
   \<and> target printed_max = - 2.4923888767972917
   \<and> objective_function rounded_square (round_to_double 0.9199895185372754)
         (round_to_double (- 1.2829684963313963))
       = Inr (round_to_double (- 2.4923888767972917))"
proof -
  let ?run = "maximize sample suggest f seed n_init n_opt"
  have a: "0 < n_init + n_opt \<longrightarrow>
      (\<exists>b. optimizer_max ?run = Some b \<and> b \<in> set ?run \<and> target b = f (params b)
         \<and> target b = Max (target ` set ?run))"
  proof
    assume "0 < n_init + n_opt"
    then have "?run \<noteq> []" using maximize_length [of sample suggest f seed n_init n_opt] by auto
    from optimizer_max_Max [OF this] obtain b
      where b: "optimizer_max ?run = Some b" "b \<in> set ?run" "target b = Max (target ` set ?run)"
      by blast
    from b(2) maximize_probes [of sample suggest f seed n_init n_opt]
    have "target b = f (params b)" by blast
    with b show "\<exists>b. optimizer_max ?run = Some b \<and> b \<in> set ?run \<and> target b = f (params b)
         \<and> target b = Max (target ` set ?run)" by blast
  qed
  have b: "optimizer_max (map row_evaluation printed_rows) = Some (row_evaluation (printed_rows ! 3))"
    by (simp add: printed_rows_def row_evaluation_def better_def)
  have c: "Max (set (map row_target printed_rows)) = row_target (printed_rows ! 3)"
    by (simp add: printed_rows_def)
  have d: "row_iter (printed_rows ! 3) = 4 \<and> row_target (printed_rows ! 3) = - 2.492
      \<and> last (filter row_marked printed_rows) = printed_rows ! 3"
    by (simp add: printed_rows_def)
  have e: "\<bar>target printed_max - row_target (printed_rows ! 3)\<bar> < 0.0005"
    by (simp add: printed_rows_def printed_max_def)
  have g: "params printed_max = [(''x'', 0.9199895185372754), (''y'', - 1.2829684963313963)]"
    by (simp add: printed_max_def)
  have h: "\<bar>0.9199895185372754 - row_x (printed_rows ! 3)\<bar> < 0.0005
      \<and> \<bar>- 1.2829684963313963 - row_y (printed_rows ! 3)\<bar> < 0.0005"
    by (simp add: printed_rows_def)
  have i: "\<bar>spec_objective 0.9199895185372754 (- 1.2829684963313963) - target printed_max\<bar>
        < 1 / 10 ^ 15"
    by (simp add: printed_max_def spec_objective_def power2_eq_square)
  have j: "target printed_max = - 2.4923888767972917"
    by (simp add: printed_max_def)
  from a b c d e g h i j objective_best show ?thesis by blast
qed

text \<open>
  A run of one random query at (3, 4) and one guided query at (1, 0): the best record is
  the second, with target -1.
\<close>

theorem best_result_is_maximum_witness:
  "(0::nat) < 1 + 1
   \<and> maximize (\<lambda>es s. ((3, 4), s)) (\<lambda>es s. ((1, 0), s)) (\<lambda>(x, y). spec_objective x y) () 1 1
       = [\<lparr>target = - 25, params = (3, 4)\<rparr>, \<lparr>target = - 1, params = (1, 0)\<rparr>]
   \<and> optimizer_max [\<lparr>target = - 25, params = (3 :: real, 4 :: real)\<rparr>, \<lparr>target = - 1, params = (1, 0)\<rparr>]
       = Some \<lparr>target = - 1, params = (1, 0)\<rparr>
   \<and> Max (target ` set [\<lparr>target = - 25, params = (3 :: real, 4 :: real)\<rparr>, \<lparr>target = - 1, params = (1, 0)\<rparr>])
       = - 1"
proof -
  have h: "(0::nat) < 1 + 1" by simp
  have r: "maximize (\<lambda>es s. ((3, 4), s)) (\<lambda>es s. ((1, 0), s)) (\<lambda>(x, y). spec_objective x y) () 1 1
       = [\<lparr>target = - 25, params = (3, 4)\<rparr>, \<lparr>target = - 1, params = (1, 0)\<rparr>]"
    by (simp add: maximize_def probe_def spec_objective_def)
  have m: "optimizer_max [\<lparr>target = - 25, params = (3 :: real, 4 :: real)\<rparr>, \<lparr>target = - 1, params = (1, 0)\<rparr>]
       = Some \<lparr>target = - 1, params = (1, 0)\<rparr>"
    by (simp add: better_def)
  from best_result_is_maximum
    [of 1 1 "\<lambda>es s. ((3, 4), s)" "\<lambda>es s. ((1, 0), s)" "\<lambda>(x, y). spec_objective x y" "()"]
    h r m
  show ?thesis by simp
qed

text \<open>
  The claim as first stated fails on the recorded output: the printed best target is not
  the maximum of the twelve printed targets, it lies below it.
\<close>

theorem printed_best_target_counterexample:
  "target printed_max \<noteq> Max (set (map row_target printed_rows))
   \<and> target printed_max < Max (set (map row_target printed_rows))"
  by (simp add: printed_rows_def printed_max_def)

section \<open>Running the Library A cell\<close>

lemma check_list_types_tuple:
  assumes "PyTuple t \<in> set x"
  shows "check_list_types x Dimension
     = Inl (ValueError (Not_instances Dimension (filter (\<lambda>a. \<not> isinstance a Dimension) x)))"
    and "PyTuple t \<in> set (filter (\<lambda>a. \<not> isinstance a Dimension) x)"
proof -
  show m: "PyTuple t \<in> set (filter (\<lambda>a. \<not> isinstance a Dimension) x)"
    using assms by simp
  have "filter (\<lambda>a. \<not> isinstance a Dimension) x \<noteq> []"
  proof
    assume e: "filter (\<lambda>a. \<not> isinstance a Dimension) x = []"
    from m show False unfolding e by simp
  qed
  then show "check_list_types x Dimension
     = Inl (ValueError (Not_instances Dimension (filter (\<lambda>a. \<not> isinstance a Dimension) x)))"
    by (simp add: check_list_types_def Let_def)
qed

lemma def_tuple_raises:
  assumes "names k ''Real'' = Some (Callable ''skopt.space.Real'')"
    and "names k ''use_named_args'' = Some (Callable ''skopt.utils.use_named_args'')"
  shows "def_objective_function tuple_dimensions lib k =
     Inl (ValueError (Not_instances Dimension
        [PyTuple [PyStr ''x'', Real_dim (- 10) 10 None],
         PyTuple [PyStr ''y'', Real_dim (- 10) 10 None]]))"
  using assms
  by (simp add: def_objective_function_def tuple_dimensions_value lookup_def and_then_def
      call_def decorator_def check_list_types_def)

lemma def_typed_binds:
  assumes "names k ''Real'' = Some (Callable ''skopt.space.Real'')"
    and "names k ''use_named_args'' = Some (Callable ''skopt.utils.use_named_args'')"
  shows "def_objective_function typed_dimensions lib k =
     Inr (assign ''objective_function''
       (Wrapper (Function ''objective_function'')
          [Real_dim (- 10) 10 (Some ''x''), Real_dim (- 10) 10 (Some ''y'')]) k)"
  using assms
  by (simp add: def_objective_function_def typed_dimensions_value lookup_def and_then_def
      call_def decorator_def check_list_types_def check_dimension_names_def)

lemma imports_run:
  "run_from 0 (import_from ''skopt'' ''gp_minimize'' #
     import_from ''skopt.space'' ''Real'' #
     import_from ''skopt.utils'' ''use_named_args'' #
     import_as ''numpy'' ''np'' #
     import_as ''matplotlib.pyplot'' ''plt'' # ss) k = run_from 5 ss (after_imports k)"
  by (simp add: import_from_def import_as_def assign_def after_imports_def eval_nat_numeral)

lemma skopt_cell_raises:
  "run_cell (skopt_cell lib) k =
     Raised (ValueError (Not_instances Dimension
        [PyTuple [PyStr ''x'', Real_dim (- 10) 10 None],
         PyTuple [PyStr ''y'', Real_dim (- 10) 10 None]])) 5 (after_imports k)"
  unfolding run_cell_def skopt_cell_def skopt_cell_with_def imports_run
  by (simp add: def_tuple_raises [OF names_after_imports(1) names_after_imports(2)])

lemma assign_space_NameError:
  "names k ''Space'' = None \<Longrightarrow> assign_space lib k = Inl (NameError ''Space'')"
  by (simp add: assign_space_def lookup_def and_then_def)

text \<open>
  Claim C4. A search space given to Library A as a list of plain tuples instead of the
  library's interval objects fails the type check with a ValueError that lists the
  tuples, in the check, in the decorator and in its application; in the cell as written
  that ValueError is raised by the decorated definition (statement 5), nothing catches it
  and the run ends there: nothing is printed, no library call is recorded, and none of
  the names the later statements would bind is bound.
\<close>

theorem tuple_search_space_raises:
  "(PyTuple t \<in> set x \<longrightarrow>
      (\<exists>err. PyTuple t \<in> set err
         \<and> check_list_types x Dimension = Inl (ValueError (Not_instances Dimension err))
         \<and> decorator x func = Inl (ValueError (Not_instances Dimension err))
         \<and> call lib (Decorator x) [func] [] k = Inl (ValueError (Not_instances Dimension err))))
   \<and> (\<exists>k'. run_cell (skopt_cell lib) k =
          Raised (ValueError (Not_instances Dimension
            [PyTuple [PyStr ''x'', Real_dim (- 10) 10 None],
             PyTuple [PyStr ''y'', Real_dim (- 10) 10 None]])) 5 k'
        \<and> stdout k' = stdout k \<and> calls k' = calls k
        \<and> names k' ''objective_function'' = names k ''objective_function''
        \<and> names k' ''dimensions'' = names k ''dimensions''
        \<and> names k' ''space'' = names k ''space''
        \<and> names k' ''result'' = names k ''result'')"
proof -
  let ?err = "filter (\<lambda>a. \<not> isinstance a Dimension) x"
  have a: "PyTuple t \<in> set x \<longrightarrow>
      (\<exists>err. PyTuple t \<in> set err
         \<and> check_list_types x Dimension = Inl (ValueError (Not_instances Dimension err))
         \<and> decorator x func = Inl (ValueError (Not_instances Dimension err))
         \<and> call lib (Decorator x) [func] [] k = Inl (ValueError (Not_instances Dimension err)))"
  proof
    assume t: "PyTuple t \<in> set x"
    note c = check_list_types_tuple [OF t]
    have d: "decorator x func = Inl (ValueError (Not_instances Dimension ?err))"
      by (simp add: decorator_def c(1) and_then_def)
    have "call lib (Decorator x) [func] [] k = Inl (ValueError (Not_instances Dimension ?err))"
      by (simp add: call_def d and_then_def)
    with c d show "\<exists>err. PyTuple t \<in> set err
         \<and> check_list_types x Dimension = Inl (ValueError (Not_instances Dimension err))
         \<and> decorator x func = Inl (ValueError (Not_instances Dimension err))
         \<and> call lib (Decorator x) [func] [] k = Inl (ValueError (Not_instances Dimension err))"
      by blast
  qed
  have b: "stdout (after_imports k) = stdout k \<and> calls (after_imports k) = calls k
        \<and> names (after_imports k) ''objective_function'' = names k ''objective_function''
        \<and> names (after_imports k) ''dimensions'' = names k ''dimensions''
        \<and> names (after_imports k) ''space'' = names k ''space''
        \<and> names (after_imports k) ''result'' = names k ''result''"
    by (simp add: after_imports_def)
  from a b skopt_cell_raises [of lib k] show ?thesis by blast
qed

text \<open>
  The search space as a list of (name, low, high) tuples: the check raises the ValueError
  that lists both of them.
\<close>

theorem tuple_search_space_raises_witness:
  "PyTuple [PyStr ''x'', PyInt (- 10), PyInt 10]
     \<in> set [PyTuple [PyStr ''x'', PyInt (- 10), PyInt 10], PyTuple [PyStr ''y'', PyInt (- 10), PyInt 10]]
   \<and> check_list_types
        [PyTuple [PyStr ''x'', PyInt (- 10), PyInt 10], PyTuple [PyStr ''y'', PyInt (- 10), PyInt 10]]
        Dimension
      = Inl (ValueError (Not_instances Dimension
          [PyTuple [PyStr ''x'', PyInt (- 10), PyInt 10], PyTuple [PyStr ''y'', PyInt (- 10), PyInt 10]]))
   \<and> (\<exists>err. decorator
          [PyTuple [PyStr ''x'', PyInt (- 10), PyInt 10], PyTuple [PyStr ''y'', PyInt (- 10), PyInt 10]]
          (Function ''objective_function'')
        = Inl (ValueError (Not_instances Dimension err)))"
proof -
  let ?x = "[PyTuple [PyStr ''x'', PyInt (- 10), PyInt 10], PyTuple [PyStr ''y'', PyInt (- 10), PyInt 10]]"
  have h: "PyTuple [PyStr ''x'', PyInt (- 10), PyInt 10] \<in> set ?x"
    by simp
  have c: "check_list_types ?x Dimension = Inl (ValueError (Not_instances Dimension ?x))"
    by (simp add: check_list_types_def)
  from tuple_search_space_raises
    [of "[PyStr ''x'', PyInt (- 10), PyInt 10]" ?x "Function ''objective_function''"
      silent_library fresh_kernel] h
  have "\<exists>err. decorator ?x (Function ''objective_function'')
        = Inl (ValueError (Not_instances Dimension err))"
    by blast
  with h c show ?thesis by blast
qed

lemma Real_call_names:
  "Real_call lib kw k = Inr (v, k') \<Longrightarrow> names k' = names k"
  by (auto simp: Real_call_def lookup_def and_then_def call_def external_def
      split: option.splits pyval.splits if_splits sum.splits list.splits prod.splits)

lemma assign_dimensions_Space:
  assumes "assign_dimensions lib k = Inr k'"
  shows "names k' ''Space'' = names k ''Space''"
proof -
  from assms obtain dx k1 dy k2
    where x: "Real_call lib [] k = Inr (dx, k1)"
      and y: "Real_call lib [] k1 = Inr (dy, k2)"
      and k': "k' = assign ''dimensions'' (PyList [PyTuple [PyStr ''x'', dx], PyTuple [PyStr ''y'', dy]]) k2"
    by (auto simp: assign_dimensions_def tuple_dimensions_def and_then_def split: sum.splits)
  from Real_call_names [OF x] Real_call_names [OF y] have "names k2 = names k" by simp
  then show ?thesis by (simp add: k' assign_def)
qed

lemma tail_stops_before_gp_minimize:
  assumes "names k ''Space'' = None"
  shows "\<exists>e i k'. run_from 6 (drop 6 (skopt_cell lib)) k = Raised e i k'
     \<and> (i = 6 \<or> i = 7 \<and> e = NameError ''Space'')"
proof (cases "assign_dimensions lib k")
  case (Inl e)
  then show ?thesis
    by (simp add: skopt_cell_def skopt_cell_with_def)
next
  case (Inr k7)
  from assign_dimensions_Space [OF Inr] assms have "names k7 ''Space'' = None" by simp
  from assign_space_NameError [OF this] Inr show ?thesis
    by (simp add: skopt_cell_def skopt_cell_with_def)
qed

lemma skopt_cell_typed_raises:
  assumes "names k ''Space'' = None"
  shows "run_cell (skopt_cell_with typed_dimensions lib) k =
     Raised (NameError ''Space'') 7
       (assign ''dimensions'' (PyList [PyTuple [PyStr ''x'', Real_dim (- 10) 10 None],
                  PyTuple [PyStr ''y'', Real_dim (- 10) 10 None]])
         (assign ''objective_function''
           (Wrapper (Function ''objective_function'')
             [Real_dim (- 10) 10 (Some ''x''), Real_dim (- 10) 10 (Some ''y'')]) (after_imports k)))"
proof -
  let ?k5 = "after_imports k"
  let ?k6 = "assign ''objective_function''
           (Wrapper (Function ''objective_function'')
             [Real_dim (- 10) 10 (Some ''x''), Real_dim (- 10) 10 (Some ''y'')]) ?k5"
  let ?k7 = "assign ''dimensions'' (PyList [PyTuple [PyStr ''x'', Real_dim (- 10) 10 None],
                  PyTuple [PyStr ''y'', Real_dim (- 10) 10 None]]) ?k6"
  have r6: "names ?k6 ''Real'' = Some (Callable ''skopt.space.Real'')"
    by (simp add: after_imports_def assign_def)
  have s7: "names ?k7 ''Space'' = None"
    using assms by (simp add: after_imports_def assign_def)
  have d: "assign_dimensions lib ?k6 = Inr ?k7"
    by (simp add: assign_dimensions_def tuple_dimensions_value [OF r6] and_then_def)
  show ?thesis
    unfolding run_cell_def skopt_cell_with_def imports_run
    by (simp add: def_typed_binds [OF names_after_imports(1) names_after_imports(2)] d
        assign_space_NameError [OF s7])
qed

text \<open>
  Claim C10. The Library A cell never reaches its call of \<^verbatim>\<open>gp_minimize\<close> (statement 8):
  as written, the decorated definition (statement 5) raises the ValueError, in every
  kernel state and whatever the library functions not shown do. With the decorator given
  the typed, named dimensions of the commented-out line, the definition succeeds and,
  where the kernel has no name Space, statement 7 raises NameError for Space, with no
  library call made and no result bound; and from any state without the name Space the
  statements after the definition stop at statement 6 or, with that NameError, at
  statement 7.
\<close>

theorem gp_minimize_never_reached:
  "skopt_cell lib ! 8 = assign_result lib
   \<and> skopt_cell_with typed_dimensions lib ! 8 = assign_result lib
   \<and> run_cell (skopt_cell lib) k =
        Raised (ValueError (Not_instances Dimension
          [PyTuple [PyStr ''x'', Real_dim (- 10) 10 None],
           PyTuple [PyStr ''y'', Real_dim (- 10) 10 None]])) 5 (after_imports k)
   \<and> calls (after_imports k) = calls k
   \<and> (names k ''Space'' = None \<longrightarrow>
        (\<exists>k'. run_cell (skopt_cell_with typed_dimensions lib) k = Raised (NameError ''Space'') 7 k'
           \<and> calls k' = calls k \<and> names k' ''result'' = names k ''result''))
   \<and> (names k6 ''Space'' = None \<longrightarrow>
        (\<exists>e i k'. run_from 6 (drop 6 (skopt_cell lib)) k6 = Raised e i k'
           \<and> (i = 6 \<or> i = 7 \<and> e = NameError ''Space'')))"
proof -
  have a: "skopt_cell lib ! 8 = assign_result lib
      \<and> skopt_cell_with typed_dimensions lib ! 8 = assign_result lib"
    by (simp add: skopt_cell_def skopt_cell_with_def)
  have b: "calls (after_imports k) = calls k"
    by (simp add: after_imports_def)
  have c: "names k ''Space'' = None \<longrightarrow>
        (\<exists>k'. run_cell (skopt_cell_with typed_dimensions lib) k = Raised (NameError ''Space'') 7 k'
           \<and> calls k' = calls k \<and> names k' ''result'' = names k ''result'')"
  proof
    assume s: "names k ''Space'' = None"
    show "\<exists>k'. run_cell (skopt_cell_with typed_dimensions lib) k = Raised (NameError ''Space'') 7 k'
           \<and> calls k' = calls k \<and> names k' ''result'' = names k ''result''"
      unfolding skopt_cell_typed_raises [OF s]
      by (simp add: assign_def after_imports_def)
  qed
  have d: "names k6 ''Space'' = None \<longrightarrow>
        (\<exists>e i k'. run_from 6 (drop 6 (skopt_cell lib)) k6 = Raised e i k'
           \<and> (i = 6 \<or> i = 7 \<and> e = NameError ''Space''))"
    using tail_stops_before_gp_minimize [of k6 lib] by blast
  from a b c d skopt_cell_raises [of lib k] show ?thesis by blast
qed

text \<open>
  In a fresh kernel, with a library that answers every call: the cell with the typed
  dimensions stops at statement 7 with the NameError.
\<close>

theorem gp_minimize_never_reached_witness:
  "names fresh_kernel ''Space'' = None
   \<and> (\<exists>k'. run_cell (skopt_cell_with typed_dimensions silent_library) fresh_kernel
          = Raised (NameError ''Space'') 7 k'
        \<and> calls k' = [] \<and> names k' ''result'' = None)
   \<and> (\<exists>k'. run_cell (skopt_cell silent_library) fresh_kernel
          = Raised (ValueError (Not_instances Dimension
              [PyTuple [PyStr ''x'', Real_dim (- 10) 10 None],
               PyTuple [PyStr ''y'', Real_dim (- 10) 10 None]])) 5 k'
        \<and> calls k' = [])"
proof -
  have h: "names fresh_kernel ''Space'' = None"
    and c: "calls fresh_kernel = []"
    and r: "names fresh_kernel ''result'' = None"
    by (simp_all add: fresh_kernel_def)
  from gp_minimize_never_reached [of silent_library fresh_kernel fresh_kernel] h c r
  show ?thesis by auto
qed

end
